theory Spec2Isabelle
  imports Complex_Main "HOL-Library.Multiset"
begin

section \<open>Data model\<close>

text \<open>
  The domain records of \<^verbatim>\<open>supabase/functions/prices/index.ts\<close>. A JavaScript
  \<^verbatim>\<open>number\<close> holding a price is modelled as an exact rational, and a
  \<^verbatim>\<open>recorded_at\<close> string as the integer \<^verbatim>\<open>new Date(recorded_at).getTime()\<close>
  (milliseconds since the epoch), which is the only way the code reads it. An optional
  field is an \<open>option\<close>. Field names are the source's, prefixed where two interfaces
  share a name.
\<close>

record card =
  c_id :: string
  c_name :: string
  c_game :: string
  c_set_name :: "string option"
  c_rarity :: "string option"

record cardPrice =
  p_id :: string
  card_id :: string
  condition :: string
  price :: rat
  currency :: string
  source :: "string option"
  recorded_at :: int

record cardPriceWithCard = cardPrice +
  cards :: card

text \<open>What a query of the store client resolves to: \<^verbatim>\<open>{ data, error }\<close>.\<close>

record pgError =
  code :: string
  message :: string

record 'a response =
  data :: "'a option"
  error :: "pgError option"

text \<open>Everything the code can throw: \<^verbatim>\<open>new Error(msg)\<close>, a store error rethrown
  by \<^verbatim>\<open>if (error) throw error\<close>, and the built-in errors of the runtime.\<close>

datatype exn =
  Error string
  | PostgrestError pgError
  | RangeError string
  | SyntaxError string

section \<open>The JavaScript Map, in insertion order\<close>

text \<open>
  \<^verbatim>\<open>Map\<close> iterates in the order in which keys were first inserted, and
  \<^verbatim>\<open>set\<close> on a key already present keeps its position.
\<close>

type_synonym ('k, 'v) jsmap = "('k \<times> 'v) list"

definition Map_get :: "('k, 'v) jsmap \<Rightarrow> 'k \<Rightarrow> 'v option" where
  "Map_get m k = map_of m k"

definition Map_has :: "('k, 'v) jsmap \<Rightarrow> 'k \<Rightarrow> bool" where
  "Map_has m k = (map_of m k \<noteq> None)"

fun Map_set :: "'k \<Rightarrow> 'v \<Rightarrow> ('k, 'v) jsmap \<Rightarrow> ('k, 'v) jsmap" where
  "Map_set k v [] = [(k, v)]"
| "Map_set k v ((k', v') # m) =
     (if k' = k then (k, v) # m else (k', v') # Map_set k v m)"

definition Map_values :: "('k, 'v) jsmap \<Rightarrow> 'v list" where
  "Map_values m = map snd m"

section \<open>Values of the runtime\<close>

text \<open>
  A \<^verbatim>\<open>number\<close> that comes out of \<^verbatim>\<open>parseInt\<close>: an integer or
  \<^verbatim>\<open>NaN\<close>. Every comparison with \<^verbatim>\<open>NaN\<close> is false.
\<close>

datatype jsnum = NaN | Num int

fun js_gt :: "jsnum \<Rightarrow> int \<Rightarrow> bool" where
  "js_gt NaN b = False"
| "js_gt (Num a) b = (a > b)"

text \<open>A parameter with a default value: the default applies when the argument is
  \<^verbatim>\<open>undefined\<close> (here \<open>None\<close>).\<close>

definition or_default :: "'a \<Rightarrow> 'a option \<Rightarrow> 'a" where
  "or_default d x = (case x of None \<Rightarrow> d | Some v \<Rightarrow> v)"

text \<open>Truthiness of an optional string: \<^verbatim>\<open>undefined\<close>, \<^verbatim>\<open>null\<close> and
  the empty string are falsy.\<close>

fun truthy :: "string option \<Rightarrow> bool" where
  "truthy None = False"
| "truthy (Some s) = (s \<noteq> [])"

text \<open>
  \<^verbatim>\<open>xs.slice(0, end)\<close>: a negative \<^verbatim>\<open>end\<close> counts from the end of the
  array, \<^verbatim>\<open>NaN\<close> is read as 0.
\<close>

fun slice0 :: "jsnum \<Rightarrow> 'a list \<Rightarrow> 'a list" where
  "slice0 NaN xs = []"
| "slice0 (Num n) xs =
     (if n < 0 then take (nat (int (length xs) + n)) xs else take (nat n) xs)"

text \<open>
  The clock. One invocation is taken to read one instant \<open>now\<close> (milliseconds since the
  epoch) at each \<^verbatim>\<open>new Date()\<close>;
  \<^verbatim>\<open>d.setDate(d.getDate() - n)\<close> moves it back by \<open>n\<close> days of 86400000 ms
  (the edge runtime's clock is UTC, without daylight saving shifts).
\<close>

definition day_ms :: int where
  "day_ms = 86400000"

definition daysAgo :: "int \<Rightarrow> int \<Rightarrow> int" where
  "daysAgo now n = now - n * day_ms"

text \<open>
  A \<^verbatim>\<open>Date\<close> holds a time value of at most 8.64e15 ms in absolute value; a date
  moved beyond that is invalid. The present and the present moved by 7 or 14 days are
  taken to be within the range; a date moved by a number of days that the caller chose
  need not be.
\<close>

definition valid_time :: "int \<Rightarrow> bool" where
  "valid_time t = (- 8640000000000000 \<le> t \<and> t \<le> 8640000000000000)"

section \<open>The store client of the price repository\<close>

text \<open>
  The store client as the price repository uses it: one field per query the repository
  sends, giving the response the query resolves to.
  \<^item> \<open>select_card_prices cardId\<close>:
    \<^verbatim>\<open>from('card_prices').select('*').eq('card_id', cardId).order('recorded_at', desc)\<close>
  \<^item> \<open>select_price_history cardId condition cutoff\<close>: the query of
    \<^verbatim>\<open>getPriceHistory\<close>, lines 74-80
  \<^item> \<open>select_recent_prices fourteenDaysAgo game\<close>: the query of
    \<^verbatim>\<open>getTopGainers\<close>, lines 94-105, with the game filter when one is applied
\<close>

record priceClient =
  select_card_prices :: "string \<Rightarrow> cardPrice list response"
  select_price_history :: "string \<Rightarrow> string \<Rightarrow> int \<Rightarrow> cardPrice list response"
  select_recent_prices :: "int \<Rightarrow> string option \<Rightarrow> cardPriceWithCard list response"

text \<open>
  Modelled from the spec: the relational store (section 6: filtered, sorted and range
  queries, joins across cards and price records), which the repository reaches through
  the client and does not implement. A store that holds its rows in two tables answers
  the three queries by filtering and sorting them. \<open>sort_key\<close> is a stable sort, so
  rows with equal timestamps keep their table order (the store itself leaves that order
  open).
\<close>

record database =
  cards_table :: "card list"
  card_prices_table :: "cardPrice list"

definition ok :: "'a \<Rightarrow> 'a response" where
  "ok rows = \<lparr>data = Some rows, error = None\<rparr>"

definition with_card :: "cardPrice \<Rightarrow> card \<Rightarrow> cardPriceWithCard" where
  "with_card p c = cardPrice.extend p (cardPriceWithCard.fields c)"

definition table_client :: "database \<Rightarrow> priceClient" where
  "table_client db =
     \<lparr>select_card_prices = (\<lambda>cardId.
        ok (sort_key (\<lambda>p. - recorded_at p)
              (filter (\<lambda>p. card_id p = cardId) (card_prices_table db)))),
      select_price_history = (\<lambda>cardId cond cutoff.
        ok (sort_key recorded_at
              (filter (\<lambda>p. card_id p = cardId \<and> condition p = cond \<and> recorded_at p \<ge> cutoff)
                 (card_prices_table db)))),
      select_recent_prices = (\<lambda>fourteenDaysAgo game.
        ok (sort_key (\<lambda>p. - recorded_at p)
              (concat (map (\<lambda>p. map (with_card p)
                                   (filter (\<lambda>c. c_id c = card_id p \<and>
                                                (case game of None \<Rightarrow> True | Some g \<Rightarrow> c_game c = g))
                                      (cards_table db)))
                         (filter (\<lambda>p. recorded_at p \<ge> fourteenDaysAgo) (card_prices_table db))))))\<rparr>"

section \<open>PriceRepository\<close>

subsection \<open>getLatestPricesForCard\<close>

text \<open>The body of the \<^verbatim>\<open>forEach\<close> at lines 59-64.\<close>

definition latestPrices_step :: "(string, cardPrice) jsmap \<Rightarrow> cardPrice \<Rightarrow> (string, cardPrice) jsmap" where
  "latestPrices_step latestPrices p =
     (if \<not> Map_has latestPrices (condition p) \<or>
         recorded_at p > recorded_at (the (Map_get latestPrices (condition p)))
      then Map_set (condition p) p latestPrices
      else latestPrices)"

definition latestPrices_of :: "cardPrice list \<Rightarrow> (string, cardPrice) jsmap" where
  "latestPrices_of rows = foldl latestPrices_step [] rows"

definition PriceRepository_getLatestPricesForCard :: "'a priceClient_scheme \<Rightarrow> string \<Rightarrow> exn + cardPrice list" where
  "PriceRepository_getLatestPricesForCard supabase cardId =
     (let r = select_card_prices supabase cardId in
      case error r of
        Some e \<Rightarrow> Inl (PostgrestError e)
      | None \<Rightarrow>
          Inr (Map_values (case data r of
                             None \<Rightarrow> []
                           | Some rows \<Rightarrow> latestPrices_of rows)))"

subsection \<open>getPriceHistory\<close>

text \<open>
  \<^verbatim>\<open>setDate(NaN)\<close> and a shift out of the range of \<^verbatim>\<open>Date\<close> make the date
  invalid, and \<^verbatim>\<open>toISOString\<close> of an invalid date throws a \<^verbatim>\<open>RangeError\<close>.
\<close>

definition PriceRepository_getPriceHistory ::
  "'a priceClient_scheme \<Rightarrow> int \<Rightarrow> string \<Rightarrow> string \<Rightarrow> jsnum option \<Rightarrow> exn + cardPrice list" where
  "PriceRepository_getPriceHistory supabase now cardId cond days =
     (case or_default (Num 30) days of
        NaN \<Rightarrow> Inl (RangeError ''Invalid time value'')
      | Num d \<Rightarrow>
          (let cutoffDate = daysAgo now d in
           if \<not> valid_time cutoffDate then Inl (RangeError ''Invalid time value'')
           else
             (let r = select_price_history supabase cardId cond cutoffDate in
              case error r of
                Some e \<Rightarrow> Inl (PostgrestError e)
              | None \<Rightarrow> Inr (case data r of None \<Rightarrow> [] | Some rows \<Rightarrow> rows))))"

subsection \<open>getTopGainers\<close>

record priceChange =
  pc_card :: card
  currentPrice :: rat
  previousPrice :: rat
  change :: rat
  changePercent :: rat

definition key_of :: "'a cardPrice_scheme \<Rightarrow> string" where
  "key_of priceRecord = card_id priceRecord @ ''-'' @ condition priceRecord"

text \<open>The body of the \<^verbatim>\<open>forEach\<close> at lines 121-142. The entry of a key is an
  object mutated in place; here it is written back under its key.\<close>

definition topGainers_step ::
  "int \<Rightarrow> int \<Rightarrow> (string, priceChange) jsmap \<Rightarrow> cardPriceWithCard \<Rightarrow> (string, priceChange) jsmap" where
  "topGainers_step sevenDaysAgo fourteenDaysAgo cardPriceChanges priceRecord =
     (let key = key_of priceRecord;
          recordDate = recorded_at priceRecord;
          m = (if \<not> Map_has cardPriceChanges key
               then Map_set key \<lparr>pc_card = cards priceRecord, currentPrice = 0, previousPrice = 0,
                                 change = 0, changePercent = 0\<rparr> cardPriceChanges
               else cardPriceChanges);
          existing = the (Map_get m key)
      in if recordDate \<ge> sevenDaysAgo \<and> currentPrice existing = 0
         then Map_set key (existing\<lparr>currentPrice := price priceRecord\<rparr>) m
         else if recordDate < sevenDaysAgo \<and> recordDate \<ge> fourteenDaysAgo \<and> previousPrice existing = 0
         then Map_set key (existing\<lparr>previousPrice := price priceRecord\<rparr>) m
         else m)"

definition cardPriceChanges_of :: "int \<Rightarrow> int \<Rightarrow> cardPriceWithCard list \<Rightarrow> (string, priceChange) jsmap" where
  "cardPriceChanges_of sevenDaysAgo fourteenDaysAgo rows =
     foldl (topGainers_step sevenDaysAgo fourteenDaysAgo) [] rows"

text \<open>Lines 145-151: the entries with both prices, with their change filled in.\<close>

definition with_change :: "priceChange \<Rightarrow> priceChange" where
  "with_change item =
     (let item1 = item\<lparr>change := currentPrice item - previousPrice item\<rparr>
      in item1\<lparr>changePercent := (change item1 / previousPrice item1) * 100\<rparr>)"

definition priceChanges_kept :: "int \<Rightarrow> int \<Rightarrow> cardPriceWithCard list \<Rightarrow> priceChange list" where
  "priceChanges_kept sevenDaysAgo fourteenDaysAgo rows =
     map with_change
       (filter (\<lambda>item. currentPrice item > 0 \<and> previousPrice item > 0)
          (Map_values (cardPriceChanges_of sevenDaysAgo fourteenDaysAgo rows)))"

text \<open>Lines 152-153. \<^verbatim>\<open>sort\<close> is stable and the comparator
  \<^verbatim>\<open>b.changePercent - a.changePercent\<close> orders by descending percentage.\<close>

definition gainers_of :: "int \<Rightarrow> int \<Rightarrow> cardPriceWithCard list \<Rightarrow> jsnum \<Rightarrow> priceChange list" where
  "gainers_of sevenDaysAgo fourteenDaysAgo rows limit =
     slice0 limit
       (sort_key (\<lambda>item. - changePercent item)
          (priceChanges_kept sevenDaysAgo fourteenDaysAgo rows))"

text \<open>Lines 155-163.\<close>

definition gainer_row :: "int \<Rightarrow> priceChange \<Rightarrow> cardPriceWithCard" where
  "gainer_row now item =
     \<lparr>p_id = [], card_id = c_id (pc_card item), condition = ''near_mint'',
      price = currentPrice item, currency = ''EUR'', source = None, recorded_at = now,
      cards = pc_card item\<rparr>"

definition PriceRepository_getTopGainers ::
  "'a priceClient_scheme \<Rightarrow> int \<Rightarrow> string option \<Rightarrow> jsnum option \<Rightarrow> exn + cardPriceWithCard list" where
  "PriceRepository_getTopGainers supabase now game limit =
     (let sevenDaysAgo = daysAgo now 7;
          fourteenDaysAgo = daysAgo now 14;
          r = select_recent_prices supabase fourteenDaysAgo (if truthy game then game else None) in
      case error r of
        Some e \<Rightarrow> Inl (PostgrestError e)
      | None \<Rightarrow>
          (case data r of
             None \<Rightarrow> Inr []
           | Some rows \<Rightarrow>
               if length rows = 0 then Inr []
               else Inr (map (gainer_row now)
                           (gainers_of sevenDaysAgo fourteenDaysAgo rows (or_default (Num 10) limit)))))"

section \<open>PriceService\<close>

definition validConditions :: "string list" where
  "validConditions = [''mint'', ''near_mint'', ''light_play'', ''moderate_play'', ''heavy_play'', ''damaged'']"

definition validGames :: "string list" where
  "validGames = [''yugioh'', ''mtg'', ''pokemon'']"

definition PriceService_getCardPrices :: "'a priceClient_scheme \<Rightarrow> string \<Rightarrow> exn + cardPrice list" where
  "PriceService_getCardPrices supabase cardId =
     (if cardId = [] then Inl (Error ''Card ID is required'')
      else PriceRepository_getLatestPricesForCard supabase cardId)"

record pricePoint =
  pp_price :: rat
  pp_currency :: string
  pp_source :: "string option"
  pp_recorded_at :: int

record priceHistory =
  ph_card_id :: string
  ph_condition :: string
  prices :: "pricePoint list"

text \<open>The object built for each row at lines 230-235.\<close>

definition pricePoint_of :: "cardPrice \<Rightarrow> pricePoint" where
  "pricePoint_of p =
     \<lparr>pp_price = price p, pp_currency = currency p, pp_source = source p,
      pp_recorded_at = recorded_at p\<rparr>"

definition PriceService_getPriceHistory ::
  "'a priceClient_scheme \<Rightarrow> int \<Rightarrow> string \<Rightarrow> string \<Rightarrow> jsnum option \<Rightarrow> exn + priceHistory" where
  "PriceService_getPriceHistory supabase now cardId cond days0 =
     (let days = or_default (Num 30) days0 in
      if cardId = [] \<or> cond = [] then Inl (Error ''Card ID and condition are required'')
      else if js_gt days 365 then Inl (Error ''Cannot fetch price history for more than 365 days'')
      else if cond \<notin> set validConditions then Inl (Error ''Invalid card condition'')
      else case PriceRepository_getPriceHistory supabase now cardId cond (Some days) of
             Inl e \<Rightarrow> Inl e
           | Inr ps \<Rightarrow>
               Inr \<lparr>ph_card_id = cardId, ph_condition = cond, prices = map pricePoint_of ps\<rparr>)"

definition PriceService_getTopGainers ::
  "'a priceClient_scheme \<Rightarrow> int \<Rightarrow> string option \<Rightarrow> jsnum option \<Rightarrow> exn + cardPriceWithCard list" where
  "PriceService_getTopGainers supabase now game limit0 =
     (let limit = or_default (Num 10) limit0 in
      if truthy game \<and> the game \<notin> set validGames then Inl (Error ''Invalid game type'')
      else if js_gt limit 50 then Inl (Error ''Limit cannot exceed 50'')
      else PriceRepository_getTopGainers supabase now game (Some limit))"

section \<open>CollectionRepository.getCollectionStats\<close>

text \<open>
  The interfaces \<^verbatim>\<open>UserCollection\<close> and \<^verbatim>\<open>CollectionWithCard\<close>, and a row
  of the second query of \<^verbatim>\<open>getCollectionStats\<close> as the code reads it: the columns
  of \<^verbatim>\<open>user_collections\<close>, the joined card, and one joined price object
  \<^verbatim>\<open>card_prices\<close> with its \<^verbatim>\<open>price\<close> and \<^verbatim>\<open>recorded_at\<close>.
\<close>

record userCollection =
  uc_id :: string
  uc_user_id :: string
  uc_card_id :: string
  uc_condition :: string
  quantity :: int
  purchase_price :: "rat option"
  purchase_date :: "string option"
  uc_notes :: "string option"
  uc_created_at :: int
  uc_updated_at :: int

record collectionWithCard = userCollection +
  uc_cards :: card

record joinedPrice =
  jp_price :: rat
  jp_recorded_at :: int

record collectionRow = collectionWithCard +
  card_prices :: joinedPrice

record topGainerStat =
  tg_name :: string
  tg_change :: rat

record collectionStats =
  totalCards :: nat
  totalValue :: rat
  topGainer :: topGainerStat
  rarest :: string

text \<open>
  The two queries of \<^verbatim>\<open>getCollectionStats\<close>: the \<^verbatim>\<open>count\<close> of the head
  query on \<^verbatim>\<open>user_collections\<close> and the \<^verbatim>\<open>data\<close> of the joined query
  (\<^verbatim>\<open>null\<close> is \<open>None\<close>). The code never reads their \<^verbatim>\<open>error\<close>.
\<close>

record collectionClient =
  count_user_collections :: "string \<Rightarrow> nat option"
  select_collections_with_prices :: "string \<Rightarrow> collectionRow list option"

definition cardKey :: "collectionRow \<Rightarrow> string" where
  "cardKey item = uc_card_id item @ ''-'' @ uc_condition item"

text \<open>Lines 539-545 of the collections handler.\<close>

definition cardPriceMap_step :: "(string, joinedPrice) jsmap \<Rightarrow> collectionRow \<Rightarrow> (string, joinedPrice) jsmap" where
  "cardPriceMap_step cardPriceMap item =
     (if \<not> Map_has cardPriceMap (cardKey item) \<or>
         jp_recorded_at (card_prices item) > jp_recorded_at (the (Map_get cardPriceMap (cardKey item)))
      then Map_set (cardKey item) (card_prices item) cardPriceMap
      else cardPriceMap)"

definition cardPriceMap_of :: "collectionRow list \<Rightarrow> (string, joinedPrice) jsmap" where
  "cardPriceMap_of collections = foldl cardPriceMap_step [] collections"

text \<open>Lines 547-553.\<close>

definition totalValue_step :: "(string, joinedPrice) jsmap \<Rightarrow> rat \<Rightarrow> collectionRow \<Rightarrow> rat" where
  "totalValue_step cardPriceMap acc item =
     (case Map_get cardPriceMap (cardKey item) of
        Some latestPrice \<Rightarrow> acc + jp_price latestPrice * of_int (quantity item)
      | None \<Rightarrow> acc)"

text \<open>Lines 556-564: \<^verbatim>\<open>cardPriceMap.get(key)?.price || 0\<close> and the stable sort by
  descending price. A \<^verbatim>\<open>null\<close> set name prints as \<^verbatim>\<open>null\<close> in the template.\<close>

definition price_or_zero :: "(string, joinedPrice) jsmap \<Rightarrow> collectionRow \<Rightarrow> rat" where
  "price_or_zero cardPriceMap a =
     (case Map_get cardPriceMap (cardKey a) of None \<Rightarrow> 0 | Some p \<Rightarrow> jp_price p)"

definition rarest_label :: "collectionRow \<Rightarrow> string" where
  "rarest_label head =
     c_name (uc_cards head) @ '' ('' @
       (case c_set_name (uc_cards head) of None \<Rightarrow> ''null'' | Some s \<Rightarrow> s) @ '')''"

definition CollectionRepository_getCollectionStats :: "'a collectionClient_scheme \<Rightarrow> string \<Rightarrow> collectionStats" where
  "CollectionRepository_getCollectionStats supabase userId =
     (let count = count_user_collections supabase userId;
          collections = select_collections_with_prices supabase userId;
          (valueSum, rarestCard) =
            (case collections of
               None \<Rightarrow> (0, [])
             | Some rows \<Rightarrow>
                 if length rows > 0
                 then (let cardPriceMap = cardPriceMap_of rows;
                           sortedByPrice = sort_key (\<lambda>a. - price_or_zero cardPriceMap a) rows
                       in (foldl (totalValue_step cardPriceMap) 0 rows,
                           (case sortedByPrice of [] \<Rightarrow> [] | head # _ \<Rightarrow> rarest_label head)))
                 else (0, []))
      in \<lparr>totalCards = (case count of None \<Rightarrow> 0 | Some n \<Rightarrow> n),
          totalValue = valueSum,
          topGainer = \<lparr>tg_name = ''Dark Magician'', tg_change = 82 / 10\<rparr>,
          rarest = (if rarestCard = [] then ''No cards'' else rarestCard)\<rparr>)"

definition CollectionService_getCollectionStats :: "'a collectionClient_scheme \<Rightarrow> string \<Rightarrow> exn + collectionStats" where
  "CollectionService_getCollectionStats supabase userId =
     (if userId = [] then Inl (Error ''User ID is required'')
      else Inr (CollectionRepository_getCollectionStats supabase userId))"

section \<open>Requests and responses\<close>

text \<open>
  What a handler reads of a \<^verbatim>\<open>Request\<close>: the method, the path of the URL, its query
  parameters in order, the \<^verbatim>\<open>authorization\<close> header, and the parsed JSON body
  (\<open>None\<close> when \<^verbatim>\<open>req.json()\<close> throws). A \<^verbatim>\<open>Response\<close> is its status (200
  when none is given) and the value that was serialised into it.
\<close>

record 'b request =
  req_method :: string
  req_pathname :: string
  req_searchParams :: "(string \<times> string) list"
  req_authorization :: "string option"
  req_json :: "'b option"

datatype 'a payload = Empty | ErrorObject string | Value 'a

record 'a httpResponse =
  status :: nat
  payload :: "'a payload"

text \<open>\<^verbatim>\<open>url.pathname.split('/').filter(Boolean)\<close>.\<close>

fun split_on :: "char \<Rightarrow> string \<Rightarrow> string list" where
  "split_on c [] = [[]]"
| "split_on c (x # xs) =
     (if x = c then [] # split_on c xs
      else (case split_on c xs of
              [] \<Rightarrow> [[x]]
            | w # ws \<Rightarrow> (x # w) # ws))"

definition pathSegments_of :: "string \<Rightarrow> string list" where
  "pathSegments_of pathname = filter (\<lambda>s. s \<noteq> []) (split_on CHR ''/'' pathname)"

text \<open>\<^verbatim>\<open>pathSegments[pathSegments.length - 1]\<close>, \<^verbatim>\<open>undefined\<close> for an empty array.\<close>

definition last_segment :: "string list \<Rightarrow> string option" where
  "last_segment pathSegments = (if pathSegments = [] then None else Some (last pathSegments))"

text \<open>\<^verbatim>\<open>url.searchParams.get(name)\<close>: the first value of the name, or \<^verbatim>\<open>null\<close>.\<close>

definition searchParams_get :: "(string \<times> string) list \<Rightarrow> string \<Rightarrow> string option" where
  "searchParams_get params name = map_of params name"

text \<open>\<^verbatim>\<open>x || d\<close> for an optional string \<open>x\<close>.\<close>

definition or_else :: "string option \<Rightarrow> string \<Rightarrow> string" where
  "or_else x d = (if truthy x then the x else d)"

text \<open>
  \<^verbatim>\<open>parseInt(s)\<close> without a radix: leading white space is skipped, a sign is read, the
  prefix \<^verbatim>\<open>0x\<close> selects radix 16, and the longest run of digits is the value; no
  digit gives \<^verbatim>\<open>NaN\<close>. (White space is the ASCII one; the value is exact.)
\<close>

definition is_space :: "char \<Rightarrow> bool" where
  "is_space c = (c \<in> set [CHR 0x09, CHR 0x0A, CHR 0x0B, CHR 0x0C, CHR 0x0D, CHR 0x20])"

definition digit_of :: "nat \<Rightarrow> char \<Rightarrow> nat option" where
  "digit_of radix c =
     (case map_of
        [(CHR ''0'', 0), (CHR ''1'', 1), (CHR ''2'', 2), (CHR ''3'', 3), (CHR ''4'', 4),
         (CHR ''5'', 5), (CHR ''6'', 6), (CHR ''7'', 7), (CHR ''8'', 8), (CHR ''9'', 9),
         (CHR ''a'', 10), (CHR ''b'', 11), (CHR ''c'', 12), (CHR ''d'', 13), (CHR ''e'', 14),
         (CHR ''f'', 15), (CHR ''A'', 10), (CHR ''B'', 11), (CHR ''C'', 12), (CHR ''D'', 13),
         (CHR ''E'', 14), (CHR ''F'', 15)] c of
        None \<Rightarrow> None
      | Some d \<Rightarrow> if d < radix then Some d else None)"

definition parseInt :: "string \<Rightarrow> jsnum" where
  "parseInt str =
     (let s = dropWhile is_space str;
          sign = (if s \<noteq> [] \<and> hd s = CHR ''-'' then - 1 else 1);
          s1 = (if s \<noteq> [] \<and> (hd s = CHR ''+'' \<or> hd s = CHR ''-'') then tl s else s);
          hex = (take 2 s1 = ''0x'' \<or> take 2 s1 = ''0X'');
          radix = (if hex then 16 else 10);
          s2 = (if hex then drop 2 s1 else s1);
          z = takeWhile (\<lambda>c. digit_of radix c \<noteq> None) s2
      in if z = [] then NaN
         else Num (sign * foldl (\<lambda>a c. a * int radix + int (the (digit_of radix c))) 0 z))"

text \<open>\<^verbatim>\<open>error.message || 'Internal server error'\<close> for a caught error.\<close>

fun message_of :: "exn \<Rightarrow> string" where
  "message_of (Error msg) = msg"
| "message_of (PostgrestError e) = message e"
| "message_of (RangeError msg) = msg"
| "message_of (SyntaxError msg) = msg"

definition error_message :: "exn \<Rightarrow> string" where
  "error_message e = (if message_of e = [] then ''Internal server error'' else message_of e)"

section \<open>The mutations of the price repository and service\<close>

text \<open>
  A JSON body of the price endpoints: an object whose fields, when present, have the
  types of \<^verbatim>\<open>CardPrice\<close>. An absent field reads as \<^verbatim>\<open>undefined\<close>.
\<close>

record priceJson =
  j_id :: "string option"
  j_card_id :: "string option"
  j_condition :: "string option"
  j_price :: "rat option"
  j_currency :: "string option"
  j_source :: "string option"
  j_recorded_at :: "int option"

text \<open>The client with the three mutating queries of the price repository:
  \<^verbatim>\<open>insert(priceData).select().single()\<close>,
  \<^verbatim>\<open>update(updates).eq('id', priceId).select().single()\<close> and
  \<^verbatim>\<open>delete().eq('id', priceId)\<close>, which resolves to an \<^verbatim>\<open>error\<close> alone.\<close>

record priceStore = priceClient +
  insert_price :: "priceJson \<Rightarrow> cardPrice response"
  update_price :: "string \<Rightarrow> priceJson \<Rightarrow> cardPrice response"
  delete_price :: "string \<Rightarrow> pgError option"

definition PriceRepository_addPrice :: "'a priceStore_scheme \<Rightarrow> priceJson \<Rightarrow> exn + cardPrice option" where
  "PriceRepository_addPrice supabase priceData =
     (let r = insert_price supabase priceData in
      case error r of Some e \<Rightarrow> Inl (PostgrestError e) | None \<Rightarrow> Inr (data r))"

definition PriceRepository_updatePrice ::
  "'a priceStore_scheme \<Rightarrow> string \<Rightarrow> priceJson \<Rightarrow> exn + cardPrice option" where
  "PriceRepository_updatePrice supabase priceId updates =
     (let r = update_price supabase priceId updates in
      case error r of Some e \<Rightarrow> Inl (PostgrestError e) | None \<Rightarrow> Inr (data r))"

definition PriceRepository_deletePrice :: "'a priceStore_scheme \<Rightarrow> string \<Rightarrow> exn + unit" where
  "PriceRepository_deletePrice supabase priceId =
     (case delete_price supabase priceId of Some e \<Rightarrow> Inl (PostgrestError e) | None \<Rightarrow> Inr ())"

definition validCurrencies :: "string list" where
  "validCurrencies = [''EUR'', ''USD'', ''GBP'', ''JPY'']"

text \<open>\<^verbatim>\<open>price <= 0\<close> is false for an absent price (\<^verbatim>\<open>undefined\<close> compares as
  \<^verbatim>\<open>NaN\<close>).\<close>

definition PriceService_addPrice ::
  "'a priceStore_scheme \<Rightarrow> string option \<Rightarrow> string option \<Rightarrow> rat option \<Rightarrow> string option \<Rightarrow>
   string option \<Rightarrow> exn + cardPrice option" where
  "PriceService_addPrice supabase cardId cond price0 currency0 source0 =
     (let currency1 = or_default ''EUR'' currency0 in
      if \<not> truthy cardId \<or> \<not> truthy cond then Inl (Error ''Card ID and condition are required'')
      else if (case price0 of None \<Rightarrow> False | Some p \<Rightarrow> p \<le> 0)
      then Inl (Error ''Price must be greater than 0'')
      else if the cond \<notin> set validConditions then Inl (Error ''Invalid card condition'')
      else if currency1 \<notin> set validCurrencies then Inl (Error ''Invalid currency'')
      else PriceRepository_addPrice supabase
             \<lparr>j_id = None, j_card_id = cardId, j_condition = cond, j_price = price0,
              j_currency = Some currency1, j_source = source0, j_recorded_at = None\<rparr>)"

definition PriceService_updatePrice ::
  "'a priceStore_scheme \<Rightarrow> string option \<Rightarrow> priceJson \<Rightarrow> exn + cardPrice option" where
  "PriceService_updatePrice supabase priceId updates =
     (if \<not> truthy priceId then Inl (Error ''Price ID is required'')
      else if (case j_price updates of None \<Rightarrow> False | Some p \<Rightarrow> p \<le> 0)
      then Inl (Error ''Price must be greater than 0'')
      else PriceRepository_updatePrice supabase (the priceId) updates)"

definition PriceService_deletePrice :: "'a priceStore_scheme \<Rightarrow> string option \<Rightarrow> exn + unit" where
  "PriceService_deletePrice supabase priceId =
     (if \<not> truthy priceId then Inl (Error ''Price ID is required'')
      else PriceRepository_deletePrice supabase (the priceId))"

section \<open>PriceController.handleRequest\<close>

datatype priceValue =
  Gainers "cardPriceWithCard list"
  | History priceHistory
  | Prices "cardPrice list"
  | OnePrice "cardPrice option"
  | Success

definition respond :: "nat \<Rightarrow> 'a \<Rightarrow> 'a httpResponse" where
  "respond st v = \<lparr>status = st, payload = Value v\<rparr>"

definition respond_error :: "nat \<Rightarrow> string \<Rightarrow> 'a httpResponse" where
  "respond_error st msg = \<lparr>status = st, payload = ErrorObject msg\<rparr>"

text \<open>The \<^verbatim>\<open>try\<close> block, lines 319-394: \<open>Inl\<close> is an error thrown inside it.\<close>

definition PriceController_try ::
  "'a priceStore_scheme \<Rightarrow> int \<Rightarrow> priceJson request \<Rightarrow> exn + priceValue httpResponse" where
  "PriceController_try supabase now req =
     (let method = req_method req;
          pathSegments = pathSegments_of (req_pathname req);
          params = req_searchParams req in
      if method = ''GET'' then
        (if ''top-gainers'' \<in> set pathSegments then
           (let game = (if truthy (searchParams_get params ''game'')
                        then searchParams_get params ''game'' else None);
                limit = parseInt (or_else (searchParams_get params ''limit'') ''10'') in
            case PriceService_getTopGainers supabase now game (Some limit) of
              Inl e \<Rightarrow> Inl e
            | Inr gainers \<Rightarrow> Inr (respond 200 (Gainers gainers)))
         else if ''history'' \<in> set pathSegments then
           (let cardId = searchParams_get params ''card_id'';
                cond = searchParams_get params ''condition'';
                days = parseInt (or_else (searchParams_get params ''days'') ''30'') in
            if \<not> truthy cardId \<or> \<not> truthy cond
            then Inr (respond_error 400 ''card_id and condition are required'')
            else case PriceService_getPriceHistory supabase now (the cardId) (the cond) (Some days) of
                   Inl e \<Rightarrow> Inl e
                 | Inr history \<Rightarrow> Inr (respond 200 (History history)))
         else
           (let cardId = searchParams_get params ''card_id'' in
            if \<not> truthy cardId
            then Inr (respond_error 400 ''card_id is required'')
            else case PriceService_getCardPrices supabase (the cardId) of
                   Inl e \<Rightarrow> Inl e
                 | Inr ps \<Rightarrow> Inr (respond 200 (Prices ps))))
      else if method = ''POST'' then
        (case req_json req of
           None \<Rightarrow> Inl (SyntaxError ''Unexpected end of JSON input'')
         | Some priceData \<Rightarrow>
             (case PriceService_addPrice supabase (j_card_id priceData) (j_condition priceData)
                     (j_price priceData) (j_currency priceData) (j_source priceData) of
                Inl e \<Rightarrow> Inl e
              | Inr newPrice \<Rightarrow> Inr (respond 201 (OnePrice newPrice))))
      else if method = ''PUT'' then
        (let priceId = last_segment pathSegments in
         case req_json req of
           None \<Rightarrow> Inl (SyntaxError ''Unexpected end of JSON input'')
         | Some updateData \<Rightarrow>
             (case PriceService_updatePrice supabase priceId updateData of
                Inl e \<Rightarrow> Inl e
              | Inr updatedPrice \<Rightarrow> Inr (respond 200 (OnePrice updatedPrice))))
      else if method = ''DELETE'' then
        (let deleteId = last_segment pathSegments in
         case PriceService_deletePrice supabase deleteId of
           Inl e \<Rightarrow> Inl e
         | Inr _ \<Rightarrow> Inr (respond 200 Success))
      else Inr (respond_error 405 ''Method not allowed''))"

text \<open>Lines 318 and 395-401: whatever the block throws is answered with status 500.\<close>

definition PriceController_handleRequest ::
  "'a priceStore_scheme \<Rightarrow> int \<Rightarrow> priceJson request \<Rightarrow> priceValue httpResponse" where
  "PriceController_handleRequest supabase now req =
     (case PriceController_try supabase now req of
        Inl e \<Rightarrow> respond_error 500 (error_message e)
      | Inr response \<Rightarrow> response)"

text \<open>The main handler, lines 406-422.\<close>

definition serve_prices ::
  "'a priceStore_scheme \<Rightarrow> int \<Rightarrow> priceJson request \<Rightarrow> priceValue httpResponse" where
  "serve_prices supabase now req =
     (if req_method req = ''OPTIONS'' then \<lparr>status = 200, payload = Empty\<rparr>
      else PriceController_handleRequest supabase now req)"

section \<open>The cards handler\<close>

text \<open>
  The records of \<^verbatim>\<open>supabase/functions/cards/index.ts\<close>: a \<^verbatim>\<open>Card\<close> row, the
  row of the joined query of \<^verbatim>\<open>getCardsWithLatestPrices\<close> as the code reads it (the
  card's columns and one \<^verbatim>\<open>card_prices\<close> object), and the
  \<^verbatim>\<open>CardWithLatestPrice\<close> built from it.
\<close>

record cardRow = card +
  card_number :: "string option"
  image_url :: "string option"
  description :: "string option"
  c_created_at :: int
  c_updated_at :: int

record latestPrice =
  lp_price :: rat
  lp_condition :: string
  lp_currency :: string
  lp_recorded_at :: int

record cardPricesRow = cardRow +
  cpr_card_prices :: latestPrice

record cardWithLatestPrice = cardRow +
  latest_price :: "latestPrice option"

text \<open>A JSON body of the cards endpoints: the fields of \<^verbatim>\<open>CreateCardRequest\<close>, each
  present or absent.\<close>

record cardJson =
  cj_name :: "string option"
  cj_game :: "string option"
  cj_set_name :: "string option"
  cj_rarity :: "string option"
  cj_card_number :: "string option"
  cj_image_url :: "string option"
  cj_description :: "string option"

text \<open>
  The store client as the card repository uses it, one field per query:
  \<^item> \<open>select_cards game searchTerm limit offset\<close>: the query of \<^verbatim>\<open>getAllCards\<close>
  \<^item> \<open>select_card_by_id cardId\<close>: \<^verbatim>\<open>getCardById\<close>, a \<^verbatim>\<open>single()\<close> query
  \<^item> \<open>select_cards_with_prices game searchTerm limit\<close>: \<^verbatim>\<open>getCardsWithLatestPrices\<close>
  \<^item> \<open>insert_card\<close>, \<open>update_card\<close>, \<open>delete_card\<close>: the three mutations
  \<^item> \<open>select_cards_by_set setName game\<close>: \<^verbatim>\<open>searchCardsBySet\<close>
\<close>

record cardStore =
  select_cards :: "string option \<Rightarrow> string option \<Rightarrow> jsnum \<Rightarrow> jsnum \<Rightarrow> cardRow list response"
  select_card_by_id :: "string \<Rightarrow> cardRow response"
  select_cards_with_prices :: "string option \<Rightarrow> string option \<Rightarrow> jsnum \<Rightarrow> cardPricesRow list response"
  insert_card :: "cardJson \<Rightarrow> cardRow response"
  update_card :: "string \<Rightarrow> cardJson \<Rightarrow> cardRow response"
  delete_card :: "string \<Rightarrow> pgError option"
  select_cards_by_set :: "string \<Rightarrow> string option \<Rightarrow> cardRow list response"

subsection \<open>CardRepository\<close>

definition CardRepository_getAllCards ::
  "cardStore \<Rightarrow> string option \<Rightarrow> string option \<Rightarrow> jsnum \<Rightarrow> jsnum \<Rightarrow> exn + cardRow list" where
  "CardRepository_getAllCards supabase game searchTerm limit offset =
     (let r = select_cards supabase (if truthy game then game else None)
                (if truthy searchTerm then searchTerm else None) limit offset in
      case error r of
        Some e \<Rightarrow> Inl (PostgrestError e)
      | None \<Rightarrow> Inr (case data r of None \<Rightarrow> [] | Some rows \<Rightarrow> rows))"

definition CardRepository_getCardById :: "cardStore \<Rightarrow> string \<Rightarrow> exn + cardRow option" where
  "CardRepository_getCardById supabase cardId =
     (let r = select_card_by_id supabase cardId in
      case error r of
        Some e \<Rightarrow> if code e = ''PGRST116'' then Inr None else Inl (PostgrestError e)
      | None \<Rightarrow> Inr (data r))"

text \<open>Lines 102-119: the card's columns are kept and \<^verbatim>\<open>latest_price\<close> is set from
  the joined price.\<close>

definition with_latest_price :: "cardPricesRow \<Rightarrow> cardWithLatestPrice" where
  "with_latest_price item =
     cardRow.extend (cardRow.truncate item)
       (cardWithLatestPrice.fields
          (Some \<lparr>lp_price = lp_price (cpr_card_prices item),
                 lp_condition = lp_condition (cpr_card_prices item),
                 lp_currency = lp_currency (cpr_card_prices item),
                 lp_recorded_at = lp_recorded_at (cpr_card_prices item)\<rparr>))"

definition cardMap_step ::
  "(string, cardWithLatestPrice) jsmap \<Rightarrow> cardPricesRow \<Rightarrow> (string, cardWithLatestPrice) jsmap" where
  "cardMap_step cardMap item =
     (let cardId = c_id item;
          existingCard = Map_get cardMap cardId in
      if existingCard = None \<or>
         lp_recorded_at (cpr_card_prices item) >
           lp_recorded_at (the (latest_price (the existingCard)))
      then Map_set cardId (with_latest_price item) cardMap
      else cardMap)"

definition CardRepository_getCardsWithLatestPrices ::
  "cardStore \<Rightarrow> string option \<Rightarrow> string option \<Rightarrow> jsnum \<Rightarrow> exn + cardWithLatestPrice list" where
  "CardRepository_getCardsWithLatestPrices supabase game searchTerm limit =
     (let r = select_cards_with_prices supabase (if truthy game then game else None)
                (if truthy searchTerm then searchTerm else None) limit in
      case error r of
        Some e \<Rightarrow> Inl (PostgrestError e)
      | None \<Rightarrow>
          Inr (Map_values (case data r of
                             None \<Rightarrow> []
                           | Some rows \<Rightarrow> foldl cardMap_step [] rows)))"

definition CardRepository_createCard :: "cardStore \<Rightarrow> cardJson \<Rightarrow> exn + cardRow option" where
  "CardRepository_createCard supabase cardData =
     (let r = insert_card supabase cardData in
      case error r of Some e \<Rightarrow> Inl (PostgrestError e) | None \<Rightarrow> Inr (data r))"

definition CardRepository_updateCard :: "cardStore \<Rightarrow> string \<Rightarrow> cardJson \<Rightarrow> exn + cardRow option" where
  "CardRepository_updateCard supabase cardId updates =
     (let r = update_card supabase cardId updates in
      case error r of Some e \<Rightarrow> Inl (PostgrestError e) | None \<Rightarrow> Inr (data r))"

definition CardRepository_deleteCard :: "cardStore \<Rightarrow> string \<Rightarrow> exn + unit" where
  "CardRepository_deleteCard supabase cardId =
     (case delete_card supabase cardId of Some e \<Rightarrow> Inl (PostgrestError e) | None \<Rightarrow> Inr ())"

definition CardRepository_searchCardsBySet ::
  "cardStore \<Rightarrow> string \<Rightarrow> string option \<Rightarrow> exn + cardRow list" where
  "CardRepository_searchCardsBySet supabase setName game =
     (let r = select_cards_by_set supabase setName (if truthy game then game else None) in
      case error r of
        Some e \<Rightarrow> Inl (PostgrestError e)
      | None \<Rightarrow> Inr (case data r of None \<Rightarrow> [] | Some rows \<Rightarrow> rows))"

subsection \<open>CardService\<close>

text \<open>\<^verbatim>\<open>s.trim()\<close>, for ASCII white space.\<close>

definition trim :: "string \<Rightarrow> string" where
  "trim s = rev (dropWhile is_space (rev (dropWhile is_space s)))"

datatype cardsResult = PlainCards "cardRow list" | PricedCards "cardWithLatestPrice list"

definition CardService_getCards ::
  "cardStore \<Rightarrow> string option \<Rightarrow> string option \<Rightarrow> bool \<Rightarrow> jsnum \<Rightarrow> jsnum \<Rightarrow> exn + cardsResult" where
  "CardService_getCards supabase game searchTerm includePrices limit offset =
     (if truthy game \<and> the game \<notin> set validGames
      then Inl (Error ''Invalid game type. Must be one of: yugioh, mtg, pokemon'')
      else if js_gt limit 100 then Inl (Error ''Limit cannot exceed 100 cards'')
      else if includePrices
      then (case CardRepository_getCardsWithLatestPrices supabase game searchTerm limit of
              Inl e \<Rightarrow> Inl e | Inr cs \<Rightarrow> Inr (PricedCards cs))
      else (case CardRepository_getAllCards supabase game searchTerm limit offset of
              Inl e \<Rightarrow> Inl e | Inr cs \<Rightarrow> Inr (PlainCards cs)))"

definition CardService_getCardById :: "cardStore \<Rightarrow> string option \<Rightarrow> exn + cardRow" where
  "CardService_getCardById supabase cardId =
     (if \<not> truthy cardId then Inl (Error ''Card ID is required'')
      else case CardRepository_getCardById supabase (the cardId) of
             Inl e \<Rightarrow> Inl e
           | Inr None \<Rightarrow> Inl (Error ''Card not found'')
           | Inr (Some c) \<Rightarrow> Inr c)"

definition CardService_searchCardsBySet ::
  "cardStore \<Rightarrow> string \<Rightarrow> string option \<Rightarrow> exn + cardRow list" where
  "CardService_searchCardsBySet supabase setName game =
     (if setName = [] \<or> length (trim setName) < 2
      then Inl (Error ''Set name must be at least 2 characters long'')
      else CardRepository_searchCardsBySet supabase (trim setName) game)"

definition CardService_createCard :: "cardStore \<Rightarrow> cardJson \<Rightarrow> exn + cardRow option" where
  "CardService_createCard supabase cardData =
     (if \<not> truthy (cj_name cardData) \<or> length (trim (the (cj_name cardData))) = 0
      then Inl (Error ''Card name is required'')
      else if (case cj_game cardData of None \<Rightarrow> True | Some g \<Rightarrow> g \<notin> set validGames)
      then Inl (Error ''Invalid game type'')
      else CardRepository_createCard supabase
             (cardData\<lparr>cj_name := Some (trim (the (cj_name cardData)))\<rparr>))"

definition CardService_updateCard ::
  "cardStore \<Rightarrow> string option \<Rightarrow> cardJson \<Rightarrow> exn + cardRow option" where
  "CardService_updateCard supabase cardId updates =
     (if \<not> truthy cardId then Inl (Error ''Card ID is required'')
      else case CardService_getCardById supabase cardId of
             Inl e \<Rightarrow> Inl e
           | Inr _ \<Rightarrow> CardRepository_updateCard supabase (the cardId) updates)"

definition CardService_deleteCard :: "cardStore \<Rightarrow> string option \<Rightarrow> exn + unit" where
  "CardService_deleteCard supabase cardId =
     (if \<not> truthy cardId then Inl (Error ''Card ID is required'')
      else case CardService_getCardById supabase cardId of
             Inl e \<Rightarrow> Inl e
           | Inr _ \<Rightarrow> CardRepository_deleteCard supabase (the cardId))"

subsection \<open>CardController.handleRequest\<close>

datatype cardValue =
  OneCard "cardRow option"
  | CardList "cardRow list"
  | Cards cardsResult
  | CardSuccess

definition CardController_try :: "cardStore \<Rightarrow> cardJson request \<Rightarrow> exn + cardValue httpResponse" where
  "CardController_try supabase req =
     (let method = req_method req;
          pathSegments = pathSegments_of (req_pathname req);
          params = req_searchParams req in
      if method = ''GET'' then
        (if length pathSegments > 1 then
           (case CardService_getCardById supabase (last_segment pathSegments) of
              Inl e \<Rightarrow> Inl e
            | Inr c \<Rightarrow> Inr (respond 200 (OneCard (Some c))))
         else
           (let game = (if truthy (searchParams_get params ''game'')
                        then searchParams_get params ''game'' else None);
                search = (if truthy (searchParams_get params ''search'')
                          then searchParams_get params ''search'' else None);
                includePrices = (searchParams_get params ''include_prices'' = Some ''true'');
                limit = parseInt (or_else (searchParams_get params ''limit'') ''50'');
                offset = parseInt (or_else (searchParams_get params ''offset'') ''0'');
                setName = searchParams_get params ''set'' in
            if truthy setName then
              (case CardService_searchCardsBySet supabase (the setName) game of
                 Inl e \<Rightarrow> Inl e
               | Inr cs \<Rightarrow> Inr (respond 200 (CardList cs)))
            else
              (case CardService_getCards supabase game search includePrices limit offset of
                 Inl e \<Rightarrow> Inl e
               | Inr cs \<Rightarrow> Inr (respond 200 (Cards cs)))))
      else if method = ''POST'' then
        (case req_json req of
           None \<Rightarrow> Inl (SyntaxError ''Unexpected end of JSON input'')
         | Some createData \<Rightarrow>
             (case CardService_createCard supabase createData of
                Inl e \<Rightarrow> Inl e
              | Inr newCard \<Rightarrow> Inr (respond 201 (OneCard newCard))))
      else if method = ''PUT'' then
        (let cardId = last_segment pathSegments in
         case req_json req of
           None \<Rightarrow> Inl (SyntaxError ''Unexpected end of JSON input'')
         | Some updateData \<Rightarrow>
             (case CardService_updateCard supabase cardId updateData of
                Inl e \<Rightarrow> Inl e
              | Inr updatedCard \<Rightarrow> Inr (respond 200 (OneCard updatedCard))))
      else if method = ''DELETE'' then
        (let deleteId = last_segment pathSegments in
         case CardService_deleteCard supabase deleteId of
           Inl e \<Rightarrow> Inl e
         | Inr _ \<Rightarrow> Inr (respond 200 CardSuccess))
      else Inr (respond_error 405 ''Method not allowed''))"

text \<open>Lines 342-350: \<^verbatim>\<open>Card not found\<close> is answered with 404, every other error
  with 500.\<close>

definition CardController_handleRequest :: "cardStore \<Rightarrow> cardJson request \<Rightarrow> cardValue httpResponse" where
  "CardController_handleRequest supabase req =
     (case CardController_try supabase req of
        Inl e \<Rightarrow>
          respond_error (if message_of e = ''Card not found'' then 404 else 500) (error_message e)
      | Inr response \<Rightarrow> response)"

section \<open>The collections handler\<close>

text \<open>A JSON body of the collection endpoints: the fields of
  \<^verbatim>\<open>AddToCollectionRequest\<close>, each present or absent.\<close>

record collectionJson =
  cl_card_id :: "string option"
  cl_condition :: "string option"
  cl_quantity :: "rat option"
  cl_purchase_price :: "rat option"
  cl_notes :: "string option"

text \<open>
  The client with the other queries of the collection repository and the identity
  lookup of the controller: \<open>auth_getUser authHeader\<close> is the user id that
  \<^verbatim>\<open>supabase.auth.getUser()\<close> resolves for a client created with that header, or
  \<open>None\<close> when it reports an error or no user.
\<close>

record collectionStore = collectionClient +
  select_user_collections :: "string \<Rightarrow> collectionWithCard list response"
  insert_collection :: "string \<Rightarrow> collectionJson \<Rightarrow> userCollection response"
  update_collection :: "string \<Rightarrow> string \<Rightarrow> collectionJson \<Rightarrow> userCollection response"
  delete_collection :: "string \<Rightarrow> string \<Rightarrow> pgError option"
  auth_getUser :: "string \<Rightarrow> string option"

subsection \<open>CollectionRepository\<close>

definition CollectionRepository_getUserCollections ::
  "collectionStore \<Rightarrow> string \<Rightarrow> exn + collectionWithCard list" where
  "CollectionRepository_getUserCollections supabase userId =
     (let r = select_user_collections supabase userId in
      case error r of
        Some e \<Rightarrow> Inl (PostgrestError e)
      | None \<Rightarrow> Inr (case data r of None \<Rightarrow> [] | Some rows \<Rightarrow> rows))"

definition CollectionRepository_addToCollection ::
  "collectionStore \<Rightarrow> string \<Rightarrow> collectionJson \<Rightarrow> exn + userCollection option" where
  "CollectionRepository_addToCollection supabase userId collectionData =
     (let r = insert_collection supabase userId collectionData in
      case error r of Some e \<Rightarrow> Inl (PostgrestError e) | None \<Rightarrow> Inr (data r))"

definition CollectionRepository_updateCollection ::
  "collectionStore \<Rightarrow> string \<Rightarrow> string \<Rightarrow> collectionJson \<Rightarrow> exn + userCollection option" where
  "CollectionRepository_updateCollection supabase userId collectionId updates =
     (let r = update_collection supabase userId collectionId updates in
      case error r of Some e \<Rightarrow> Inl (PostgrestError e) | None \<Rightarrow> Inr (data r))"

definition CollectionRepository_removeFromCollection ::
  "collectionStore \<Rightarrow> string \<Rightarrow> string \<Rightarrow> exn + unit" where
  "CollectionRepository_removeFromCollection supabase userId collectionId =
     (case delete_collection supabase userId collectionId of
        Some e \<Rightarrow> Inl (PostgrestError e)
      | None \<Rightarrow> Inr ())"

subsection \<open>CollectionService\<close>

definition CollectionService_getUserCollections ::
  "collectionStore \<Rightarrow> string \<Rightarrow> exn + collectionWithCard list" where
  "CollectionService_getUserCollections supabase userId =
     (if userId = [] then Inl (Error ''User ID is required'')
      else CollectionRepository_getUserCollections supabase userId)"

text \<open>\<^verbatim>\<open>quantity <= 0\<close> is false for an absent quantity.\<close>

definition CollectionService_addCardToCollection ::
  "collectionStore \<Rightarrow> string \<Rightarrow> string option \<Rightarrow> string option \<Rightarrow> rat option \<Rightarrow> rat option \<Rightarrow>
   string option \<Rightarrow> exn + userCollection option" where
  "CollectionService_addCardToCollection supabase userId cardId cond quantity0 purchasePrice notes0 =
     (if userId = [] \<or> \<not> truthy cardId then Inl (Error ''User ID and Card ID are required'')
      else if (case quantity0 of None \<Rightarrow> False | Some q \<Rightarrow> q \<le> 0)
      then Inl (Error ''Quantity must be greater than 0'')
      else if (case cond of None \<Rightarrow> True | Some c \<Rightarrow> c \<notin> set validConditions)
      then Inl (Error ''Invalid card condition'')
      else CollectionRepository_addToCollection supabase userId
             \<lparr>cl_card_id = cardId, cl_condition = cond, cl_quantity = quantity0,
              cl_purchase_price = purchasePrice, cl_notes = notes0\<rparr>)"

definition CollectionService_updateCollectionItem ::
  "collectionStore \<Rightarrow> string \<Rightarrow> string option \<Rightarrow> collectionJson \<Rightarrow> exn + userCollection option" where
  "CollectionService_updateCollectionItem supabase userId collectionId updates =
     (if userId = [] \<or> \<not> truthy collectionId
      then Inl (Error ''User ID and Collection ID are required'')
      else CollectionRepository_updateCollection supabase userId (the collectionId) updates)"

definition CollectionService_removeFromCollection ::
  "collectionStore \<Rightarrow> string \<Rightarrow> string option \<Rightarrow> exn + unit" where
  "CollectionService_removeFromCollection supabase userId collectionId =
     (if userId = [] \<or> \<not> truthy collectionId
      then Inl (Error ''User ID and Collection ID are required'')
      else CollectionRepository_removeFromCollection supabase userId (the collectionId))"

subsection \<open>CollectionController.handleRequest\<close>

datatype collectionValue =
  Stats collectionStats
  | Collections "collectionWithCard list"
  | OneItem "userCollection option"
  | CollectionSuccess

definition CollectionController_try ::
  "collectionStore \<Rightarrow> string \<Rightarrow> collectionJson request \<Rightarrow> exn + collectionValue httpResponse" where
  "CollectionController_try supabase userId req =
     (let method = req_method req;
          pathSegments = pathSegments_of (req_pathname req) in
      if method = ''GET'' then
        (if ''stats'' \<in> set pathSegments then
           (case CollectionService_getCollectionStats supabase userId of
              Inl e \<Rightarrow> Inl e
            | Inr stats \<Rightarrow> Inr (respond 200 (Stats stats)))
         else
           (case CollectionService_getUserCollections supabase userId of
              Inl e \<Rightarrow> Inl e
            | Inr collections \<Rightarrow> Inr (respond 200 (Collections collections))))
      else if method = ''POST'' then
        (case req_json req of
           None \<Rightarrow> Inl (SyntaxError ''Unexpected end of JSON input'')
         | Some addData \<Rightarrow>
             (case CollectionService_addCardToCollection supabase userId (cl_card_id addData)
                     (cl_condition addData) (cl_quantity addData) (cl_purchase_price addData)
                     (cl_notes addData) of
                Inl e \<Rightarrow> Inl e
              | Inr newItem \<Rightarrow> Inr (respond 201 (OneItem newItem))))
      else if method = ''PUT'' then
        (let collectionId = last_segment pathSegments in
         case req_json req of
           None \<Rightarrow> Inl (SyntaxError ''Unexpected end of JSON input'')
         | Some updateData \<Rightarrow>
             (case CollectionService_updateCollectionItem supabase userId collectionId updateData of
                Inl e \<Rightarrow> Inl e
              | Inr updatedItem \<Rightarrow> Inr (respond 200 (OneItem updatedItem))))
      else if method = ''DELETE'' then
        (let deleteId = last_segment pathSegments in
         case CollectionService_removeFromCollection supabase userId deleteId of
           Inl e \<Rightarrow> Inl e
         | Inr _ \<Rightarrow> Inr (respond 200 CollectionSuccess))
      else Inr (respond_error 405 ''Method not allowed''))"

text \<open>The header and identity checks before the \<^verbatim>\<open>try\<close> block, and the
  \<^verbatim>\<open>catch\<close> after it.\<close>

definition CollectionController_handleRequest ::
  "collectionStore \<Rightarrow> collectionJson request \<Rightarrow> collectionValue httpResponse" where
  "CollectionController_handleRequest supabase req =
     (if \<not> truthy (req_authorization req)
      then respond_error 401 ''Authorization header required''
      else case auth_getUser supabase (the (req_authorization req)) of
             None \<Rightarrow> respond_error 401 ''Unauthorized''
           | Some userId \<Rightarrow>
               (case CollectionController_try supabase userId req of
                  Inl e \<Rightarrow> respond_error 500 (error_message e)
                | Inr response \<Rightarrow> response))"

section \<open>Reference definitions\<close>

text \<open>
  The functions below are not taken from the source. They say, in the terms of the
  specification, what the source's loops are compared with.
\<close>

subsection \<open>Latest price per condition\<close>

text \<open>The first row, in traversal order, among the rows of condition \<open>c\<close> whose
  timestamp no other row of that condition exceeds.\<close>

definition first_latest :: "cardPrice list \<Rightarrow> string \<Rightarrow> cardPrice option" where
  "first_latest rows c =
     List.find (\<lambda>r. condition r = c \<and>
                 (\<forall>r'\<in>set rows. condition r' = c \<longrightarrow> recorded_at r' \<le> recorded_at r)) rows"

subsection \<open>Top gainers\<close>

text \<open>The keys of a row list in the order of their first occurrence.\<close>

definition first_keys :: "string list \<Rightarrow> string list" where
  "first_keys ks = rev (remdups (rev ks))"

definition first_record :: "cardPriceWithCard list \<Rightarrow> string \<Rightarrow> cardPriceWithCard option" where
  "first_record rows k = List.find (\<lambda>r. key_of r = k) rows"

text \<open>
  What the scan of \<^verbatim>\<open>getTopGainers\<close> retains for a key: the first row at or after
  \<open>sevenDaysAgo\<close> with a price other than 0, and the first row in
  \<open>[fourteenDaysAgo, sevenDaysAgo)\<close> with a price other than 0.
\<close>

definition current_record :: "int \<Rightarrow> cardPriceWithCard list \<Rightarrow> string \<Rightarrow> cardPriceWithCard option" where
  "current_record sevenDaysAgo rows k =
     List.find (\<lambda>r. key_of r = k \<and> recorded_at r \<ge> sevenDaysAgo \<and> price r \<noteq> 0) rows"

definition previous_record :: "int \<Rightarrow> int \<Rightarrow> cardPriceWithCard list \<Rightarrow> string \<Rightarrow> cardPriceWithCard option" where
  "previous_record sevenDaysAgo fourteenDaysAgo rows k =
     List.find (\<lambda>r. key_of r = k \<and> recorded_at r < sevenDaysAgo \<and>
                     recorded_at r \<ge> fourteenDaysAgo \<and> price r \<noteq> 0) rows"

definition window_change :: "int \<Rightarrow> int \<Rightarrow> cardPriceWithCard list \<Rightarrow> string \<Rightarrow> priceChange option" where
  "window_change sevenDaysAgo fourteenDaysAgo rows k =
     (case (first_record rows k, current_record sevenDaysAgo rows k,
            previous_record sevenDaysAgo fourteenDaysAgo rows k) of
        (Some r0, Some c, Some p) \<Rightarrow>
          if price c > 0 \<and> price p > 0
          then Some \<lparr>pc_card = cards r0, currentPrice = price c, previousPrice = price p,
                     change = price c - price p,
                     changePercent = ((price c - price p) / price p) * 100\<rparr>
          else None
      | _ \<Rightarrow> None)"

text \<open>
  The same computation as the specification words it: \<open>current\<close> is the first row within
  \<open>[now - 7d, now]\<close>, \<open>previous\<close> the first row within \<open>[now - 14d, now - 7d)\<close>, and a
  key is dropped when it lacks either.
\<close>

definition claimed_current :: "int \<Rightarrow> cardPriceWithCard list \<Rightarrow> string \<Rightarrow> cardPriceWithCard option" where
  "claimed_current now rows k =
     List.find (\<lambda>r. key_of r = k \<and> daysAgo now 7 \<le> recorded_at r \<and> recorded_at r \<le> now) rows"

definition claimed_previous :: "int \<Rightarrow> cardPriceWithCard list \<Rightarrow> string \<Rightarrow> cardPriceWithCard option" where
  "claimed_previous now rows k =
     List.find (\<lambda>r. key_of r = k \<and> daysAgo now 14 \<le> recorded_at r \<and> recorded_at r < daysAgo now 7) rows"

definition claimed_change :: "int \<Rightarrow> cardPriceWithCard list \<Rightarrow> string \<Rightarrow> priceChange option" where
  "claimed_change now rows k =
     (case (first_record rows k, claimed_current now rows k, claimed_previous now rows k) of
        (Some r0, Some c, Some p) \<Rightarrow>
          Some \<lparr>pc_card = cards r0, currentPrice = price c, previousPrice = price p,
                change = price c - price p,
                changePercent = ((price c - price p) / price p) * 100\<rparr>
      | _ \<Rightarrow> None)"

definition claimed_priceChanges :: "int \<Rightarrow> cardPriceWithCard list \<Rightarrow> priceChange list" where
  "claimed_priceChanges now rows =
     List.map_filter (claimed_change now rows) (first_keys (map key_of rows))"

text \<open>Auxiliary: the entry the scan holds for a key before the change is filled in.\<close>

definition price_or0 :: "cardPriceWithCard option \<Rightarrow> rat" where
  "price_or0 x = (case x of None \<Rightarrow> 0 | Some r \<Rightarrow> price r)"

definition entry_of :: "int \<Rightarrow> int \<Rightarrow> cardPriceWithCard list \<Rightarrow> string \<Rightarrow> priceChange" where
  "entry_of s f rows k =
     \<lparr>pc_card = cards (the (first_record rows k)),
      currentPrice = price_or0 (current_record s rows k),
      previousPrice = price_or0 (previous_record s f rows k),
      change = 0, changePercent = 0\<rparr>"


subsection \<open>Price history\<close>

text \<open>The rows of the table store that the history query selects, before sorting.\<close>

definition history_rows :: "database \<Rightarrow> string \<Rightarrow> string \<Rightarrow> int \<Rightarrow> cardPrice list" where
  "history_rows db cardId cond cutoff =
     filter (\<lambda>p. card_id p = cardId \<and> condition p = cond \<and> recorded_at p \<ge> cutoff)
       (card_prices_table db)"

subsection \<open>Collection value\<close>





subsection \<open>Requests\<close>

text \<open>Shorthands for what the handlers read from a request.\<close>

definition segments :: "'b request \<Rightarrow> string list" where
  "segments req = pathSegments_of (req_pathname req)"

definition param :: "'b request \<Rightarrow> string \<Rightarrow> string option" where
  "param req name = searchParams_get (req_searchParams req) name"

text \<open>The requests that the prices handler answers itself, before it calls the service:
  a \<^verbatim>\<open>GET\<close> outside the top-gainers route without \<^verbatim>\<open>card_id\<close>, or on the
  history route without \<^verbatim>\<open>card_id\<close> or \<^verbatim>\<open>condition\<close>.\<close>

definition price_presence_check_fails :: "'b request \<Rightarrow> bool" where
  "price_presence_check_fails req =
     (req_method req = ''GET'' \<and> ''top-gainers'' \<notin> set (segments req) \<and>
      (if ''history'' \<in> set (segments req)
       then \<not> truthy (param req ''card_id'') \<or> \<not> truthy (param req ''condition'')
       else \<not> truthy (param req ''card_id'')))"

section \<open>Example data\<close>

definition mk_price :: "string \<Rightarrow> string \<Rightarrow> string \<Rightarrow> rat \<Rightarrow> int \<Rightarrow> cardPrice" where
  "mk_price i c cond pr t =
     \<lparr>p_id = i, card_id = c, condition = cond, price = pr, currency = ''EUR'',
      source = None, recorded_at = t\<rparr>"

definition dark_magician :: card where
  "dark_magician =
     \<lparr>c_id = ''card-a'', c_name = ''Dark Magician'', c_game = ''yugioh'',
      c_set_name = Some ''Legend of Blue Eyes'', c_rarity = Some ''Ultra Rare''\<rparr>"

definition black_lotus :: card where
  "black_lotus =
     \<lparr>c_id = ''card-b'', c_name = ''Black Lotus'', c_game = ''mtg'',
      c_set_name = Some ''Alpha'', c_rarity = Some ''Rare''\<rparr>"

text \<open>Day 1000 after the epoch, in milliseconds.\<close>

definition ex_now :: int where
  "ex_now = 86400000000"

text \<open>Price rows of two cards, and two rows of one condition that share their
  timestamp.\<close>

definition prices_db :: database where
  "prices_db =
     \<lparr>cards_table = [dark_magician, black_lotus],
      card_prices_table =
        [mk_price ''p1'' ''card-a'' ''near_mint'' 40 100,
         mk_price ''p2'' ''card-a'' ''mint'' 60 200,
         mk_price ''p3'' ''card-a'' ''near_mint'' 45 300,
         mk_price ''p4'' ''card-b'' ''light_play'' 8500 250]\<rparr>"

definition tie_db :: database where
  "tie_db =
     \<lparr>cards_table = [dark_magician],
      card_prices_table =
        [mk_price ''p1'' ''card-a'' ''mint'' 40 500,
         mk_price ''p2'' ''card-a'' ''mint'' 42 500]\<rparr>"

text \<open>
  Price rows around day 1000: \<open>gain_db\<close> holds a card priced 110 one day ago and 100
  eight days ago, and a card priced once; \<open>odd_db\<close> holds a row dated one day after
  \<open>ex_now\<close> and a row with price 0. \<open>gain_rows\<close> and \<open>odd_rows\<close> are what
  the top-gainers query returns for them, newest first.
\<close>

definition gain_db :: database where
  "gain_db =
     \<lparr>cards_table = [dark_magician, black_lotus],
      card_prices_table =
        [mk_price ''g1'' ''card-a'' ''near_mint'' 100 85708800000,
         mk_price ''g2'' ''card-a'' ''near_mint'' 110 86313600000,
         mk_price ''g3'' ''card-b'' ''light_play'' 8500 86227200000]\<rparr>"

definition gain_rows :: "cardPriceWithCard list" where
  "gain_rows =
     [with_card (mk_price ''g2'' ''card-a'' ''near_mint'' 110 86313600000) dark_magician,
      with_card (mk_price ''g3'' ''card-b'' ''light_play'' 8500 86227200000) black_lotus,
      with_card (mk_price ''g1'' ''card-a'' ''near_mint'' 100 85708800000) dark_magician]"

definition odd_db :: database where
  "odd_db =
     \<lparr>cards_table = [dark_magician, black_lotus],
      card_prices_table =
        [mk_price ''o1'' ''card-a'' ''near_mint'' 110 86486400000,
         mk_price ''o2'' ''card-b'' ''light_play'' 0 86313600000,
         mk_price ''o3'' ''card-b'' ''light_play'' 110 86227200000,
         mk_price ''o4'' ''card-a'' ''near_mint'' 100 85708800000,
         mk_price ''o5'' ''card-b'' ''light_play'' 100 85622400000]\<rparr>"

definition odd_rows :: "cardPriceWithCard list" where
  "odd_rows =
     [with_card (mk_price ''o1'' ''card-a'' ''near_mint'' 110 86486400000) dark_magician,
      with_card (mk_price ''o2'' ''card-b'' ''light_play'' 0 86313600000) black_lotus,
      with_card (mk_price ''o3'' ''card-b'' ''light_play'' 110 86227200000) black_lotus,
      with_card (mk_price ''o4'' ''card-a'' ''near_mint'' 100 85708800000) dark_magician,
      with_card (mk_price ''o5'' ''card-b'' ''light_play'' 100 85622400000) black_lotus]"





text \<open>One price row recorded exactly at \<open>ex_now\<close>.\<close>

definition now_db :: database where
  "now_db =
     \<lparr>cards_table = [dark_magician],
      card_prices_table = [mk_price ''n1'' ''card-a'' ''near_mint'' 45 86400000000]\<rparr>"

text \<open>
  A user with two collection entries, \<open>e1\<close> (Dark Magician, quantity 2) and \<open>e2\<close>
  (Black Lotus, quantity 1), each joined with one price, 10 and 50.
\<close>

definition mk_row :: "string \<Rightarrow> card \<Rightarrow> string \<Rightarrow> int \<Rightarrow> rat \<Rightarrow> int \<Rightarrow> collectionRow" where
  "mk_row i c cond q pr t =
     \<lparr>uc_id = i, uc_user_id = ''u1'', uc_card_id = c_id c, uc_condition = cond, quantity = q,
      purchase_price = None, purchase_date = None, uc_notes = None, uc_created_at = 0,
      uc_updated_at = 0, uc_cards = c, card_prices = \<lparr>jp_price = pr, jp_recorded_at = t\<rparr>\<rparr>"

definition stats_rows :: "collectionRow list" where
  "stats_rows =
     [mk_row ''e1'' dark_magician ''near_mint'' 2 10 300,
      mk_row ''e2'' black_lotus ''light_play'' 1 50 200]"

definition stats_client :: "collectionRow list \<Rightarrow> collectionClient" where
  "stats_client rows =
     \<lparr>count_user_collections = (\<lambda>u. if u = ''u1'' then Some 2 else Some 0),
      select_collections_with_prices = (\<lambda>u. if u = ''u1'' then Some rows else Some [])\<rparr>"

text \<open>
  A price store over a table whose mutations are refused, as row-level security refuses
  them for a caller without a write policy; requests; and stores for the cards and the
  collections handlers that answer every query with no rows.
\<close>

definition rls_denied :: pgError where
  "rls_denied = \<lparr>code = ''42501'', message = ''new row violates row-level security policy''\<rparr>"

definition read_only_store :: "database \<Rightarrow> priceStore" where
  "read_only_store db =
     priceClient.extend (table_client db)
       (priceStore.fields (\<lambda>_. \<lparr>data = None, error = Some rls_denied\<rparr>)
          (\<lambda>_ _. \<lparr>data = None, error = Some rls_denied\<rparr>) (\<lambda>_. Some rls_denied))"

definition get_request :: "string \<Rightarrow> (string \<times> string) list \<Rightarrow> 'b request" where
  "get_request path params =
     \<lparr>req_method = ''GET'', req_pathname = path, req_searchParams = params,
      req_authorization = None, req_json = None\<rparr>"

definition post_request :: "string \<Rightarrow> string option \<Rightarrow> 'b \<Rightarrow> 'b request" where
  "post_request path auth b =
     \<lparr>req_method = ''POST'', req_pathname = path, req_searchParams = [],
      req_authorization = auth, req_json = Some b\<rparr>"

definition empty_card_store :: cardStore where
  "empty_card_store =
     \<lparr>select_cards = (\<lambda>_ _ _ _. ok []),
      select_card_by_id = (\<lambda>_. \<lparr>data = None, error = Some \<lparr>code = ''PGRST116'', message = ''no rows''\<rparr>\<rparr>),
      select_cards_with_prices = (\<lambda>_ _ _. ok []),
      insert_card = (\<lambda>_. \<lparr>data = None, error = Some rls_denied\<rparr>),
      update_card = (\<lambda>_ _. \<lparr>data = None, error = Some rls_denied\<rparr>),
      delete_card = (\<lambda>_. Some rls_denied),
      select_cards_by_set = (\<lambda>_ _. ok [])\<rparr>"

definition empty_collection_store :: collectionStore where
  "empty_collection_store =
     collectionClient.extend (stats_client [])
       (collectionStore.fields (\<lambda>_. ok [])
          (\<lambda>_ _. \<lparr>data = None, error = Some rls_denied\<rparr>)
          (\<lambda>_ _ _. \<lparr>data = None, error = Some rls_denied\<rparr>)
          (\<lambda>_ _. Some rls_denied)
          (\<lambda>h. if h = ''Bearer token-u1'' then Some ''u1'' else None))"

text \<open>A history request for 366 days, a request that adds zero cards to a collection, and a
  request that creates a card of an unknown game.\<close>

definition days_366_request :: "priceJson request" where
  "days_366_request =
     get_request ''/prices/history''
       [(''card_id'', ''card-a''), (''condition'', ''near_mint''), (''days'', ''366'')]"

definition zero_quantity_request :: "collectionJson request" where
  "zero_quantity_request =
     post_request ''/collections'' (Some ''Bearer token-u1'')
       \<lparr>cl_card_id = Some ''card-a'', cl_condition = Some ''mint'', cl_quantity = Some 0,
        cl_purchase_price = None, cl_notes = None\<rparr>"

definition chess_card_request :: "cardJson request" where
  "chess_card_request =
     post_request ''/cards'' None
       \<lparr>cj_name = Some ''Knight'', cj_game = Some ''chess'', cj_set_name = None, cj_rarity = None,
        cj_card_number = None, cj_image_url = None, cj_description = None\<rparr>"

section \<open>Facts about the Map model\<close>

lemma Map_set_keys:
  "map fst (Map_set k v m) = (if k \<in> set (map fst m) then map fst m else map fst m @ [k])"
  by (induction m) force+

lemma Map_set_lookup:
  "map_of (Map_set k v m) k' = (if k' = k then Some v else map_of m k')"
  by (induction m) auto

lemma Map_has_iff: "Map_has m k \<longleftrightarrow> k \<in> set (map fst m)"
  by (simp add: Map_has_def map_of_eq_None_iff)


section \<open>Facts about lists\<close>

lemma find_append:
  "List.find P (xs @ ys) = (case List.find P xs of None \<Rightarrow> List.find P ys | Some x \<Rightarrow> Some x)"
  by (induction xs) auto

lemma find_Some_mem: "List.find P xs = Some x \<Longrightarrow> x \<in> set xs \<and> P x"
  by (induction xs) (auto split: if_splits)

lemma find_narrow:
  assumes "List.find P xs = Some v" and "\<And>r. r \<in> set xs \<Longrightarrow> Q r \<Longrightarrow> P r" and "Q v"
  shows "List.find Q xs = Some v"
  using assms by (induction xs) (auto split: if_splits)

lemma values_by_keys:
  "distinct (map fst m) \<Longrightarrow> map snd m = map (\<lambda>k. the (map_of m k)) (map fst m)"
proof (induction m)
  case Nil
  show ?case by simp
next
  case (Cons kv m)
  obtain k v where kv: "kv = (k, v)" by (cases kv)
  have "map (\<lambda>k'. the (map_of (kv # m) k')) (map fst m) = map (\<lambda>k'. the (map_of m k')) (map fst m)"
    using Cons.prems unfolding kv by (intro map_cong) auto
  then show ?case using Cons unfolding kv by simp
qed

lemma first_keys_snoc:
  "first_keys (ks @ [k]) = (if k \<in> set ks then first_keys ks else first_keys ks @ [k])"
  by (simp add: first_keys_def)

lemma set_first_keys: "set (first_keys ks) = set ks"
  by (simp add: first_keys_def)

lemma distinct_first_keys: "distinct (first_keys ks)"
  by (simp add: first_keys_def)

section \<open>The latest-price resolver\<close>

lemma exists_latest:
  assumes "r0 \<in> set rows" "condition r0 = c"
  shows "\<exists>r\<in>set rows. condition r = c \<and>
           (\<forall>r'\<in>set rows. condition r' = c \<longrightarrow> recorded_at r' \<le> recorded_at r)"
proof -
  let ?S = "{r \<in> set rows. condition r = c}"
  let ?T = "recorded_at ` ?S"
  have fin: "finite ?T" by simp
  have ne: "?T \<noteq> {}" using assms by auto
  from Max_in[OF fin ne] obtain r where r: "r \<in> ?S" "recorded_at r = Max ?T" by auto
  have "\<forall>r'\<in>?S. recorded_at r' \<le> recorded_at r"
    using Max_ge[OF fin] r(2) by auto
  with r(1) show ?thesis by auto
qed

lemma first_latest_None: "first_latest rows c = None \<longleftrightarrow> c \<notin> condition ` set rows"
proof
  assume "first_latest rows c = None"
  then show "c \<notin> condition ` set rows"
    using exists_latest[of _ rows c] unfolding first_latest_def find_None_iff by blast
next
  assume "c \<notin> condition ` set rows"
  then show "first_latest rows c = None"
    unfolding first_latest_def find_None_iff by auto
qed

lemma first_latest_snoc_other:
  assumes "condition x \<noteq> c"
  shows "first_latest (xs @ [x]) c = first_latest xs c"
proof -
  have "first_latest (xs @ [x]) c =
        List.find (\<lambda>r. condition r = c \<and>
                    (\<forall>r'\<in>set (xs @ [x]). condition r' = c \<longrightarrow> recorded_at r' \<le> recorded_at r)) xs"
    using assms by (simp add: first_latest_def find_append split: option.splits)
  also have "\<dots> = first_latest xs c"
    unfolding first_latest_def using assms by (intro find_cong) auto
  finally show ?thesis .
qed

lemma first_latest_snoc_same:
  "first_latest (xs @ [x]) (condition x) =
     (case first_latest xs (condition x) of
        None \<Rightarrow> Some x
      | Some v \<Rightarrow> if recorded_at x > recorded_at v then Some x else Some v)"
proof (cases "first_latest xs (condition x)")
  case None
  then have "condition x \<notin> condition ` set xs" by (simp add: first_latest_None)
  then have no: "\<forall>r\<in>set xs. condition r \<noteq> condition x" by (metis imageI)
  then have "List.find (\<lambda>r. condition r = condition x \<and>
                 (\<forall>r'\<in>set (xs @ [x]). condition r' = condition x \<longrightarrow> recorded_at r' \<le> recorded_at r)) xs = None"
    unfolding find_None_iff by blast
  then show ?thesis using None no
    by (auto simp add: first_latest_def find_append)
next
  case (Some v)
  then have v: "v \<in> set xs" "condition v = condition x"
    and vmax: "\<forall>r'\<in>set xs. condition r' = condition x \<longrightarrow> recorded_at r' \<le> recorded_at v"
    using find_Some_mem[of _ xs v] unfolding first_latest_def by auto
  show ?thesis
  proof (cases "recorded_at x > recorded_at v")
    case True
    have "List.find (\<lambda>r. condition r = condition x \<and>
              (\<forall>r'\<in>set (xs @ [x]). condition r' = condition x \<longrightarrow> recorded_at r' \<le> recorded_at r)) xs = None"
      unfolding find_None_iff using vmax True by fastforce
    then show ?thesis using Some True vmax
      by (auto simp add: first_latest_def find_append)
  next
    case False
    have "List.find (\<lambda>r. condition r = condition x \<and>
              (\<forall>r'\<in>set (xs @ [x]). condition r' = condition x \<longrightarrow> recorded_at r' \<le> recorded_at r)) xs = Some v"
      apply (rule find_narrow[OF Some[unfolded first_latest_def]])
      using False v vmax by auto
    then show ?thesis using Some False
      by (simp add: first_latest_def find_append)
  qed
qed

lemma latestPrices_lookup: "map_of (latestPrices_of rows) c = first_latest rows c"
proof (induction rows arbitrary: c rule: rev_induct)
  case Nil
  show ?case by (simp add: latestPrices_of_def first_latest_def)
next
  case (snoc x xs)
  have IH: "\<And>c. map_of (foldl latestPrices_step [] xs) c = first_latest xs c"
    using snoc by (simp add: latestPrices_of_def)
  show ?case
  proof (cases "c = condition x")
    case True
    show ?thesis
      unfolding latestPrices_of_def True
      by (auto simp add: latestPrices_step_def Map_has_def Map_get_def Map_set_lookup IH
          first_latest_snoc_same split: option.splits)
  next
    case False
    then show ?thesis
      unfolding latestPrices_of_def
      by (auto simp add: latestPrices_step_def Map_set_lookup IH first_latest_snoc_other)
  qed
qed

lemma latestPrices_keys_distinct: "distinct (map fst (latestPrices_of rows))"
proof (induction rows rule: rev_induct)
  case Nil
  show ?case by (simp add: latestPrices_of_def)
next
  case (snoc x xs)
  then show ?case
    by (auto simp add: latestPrices_of_def latestPrices_step_def Map_set_keys)
qed

lemma latestPrices_entry:
  "(k, v) \<in> set (latestPrices_of rows) \<longleftrightarrow> first_latest rows k = Some v"
  using latestPrices_keys_distinct[of rows] latestPrices_lookup[of rows k]
  by (metis map_of_eq_Some_iff)

section \<open>The scan of the top-gainers computation\<close>

lemma entry_snoc_other:
  assumes "key_of x \<noteq> k"
  shows "current_record s (xs @ [x]) k = current_record s xs k"
    and "previous_record s f (xs @ [x]) k = previous_record s f xs k"
    and "first_record (xs @ [x]) k = first_record xs k"
  using assms by (auto simp: current_record_def previous_record_def first_record_def find_append split: option.splits)

lemma first_record_None: "first_record xs k = None \<longleftrightarrow> k \<notin> key_of ` set xs"
  by (auto simp: first_record_def find_None_iff)

lemma no_key_no_window:
  assumes "k \<notin> key_of ` set xs"
  shows "current_record s xs k = None" "previous_record s f xs k = None"
  using assms by (auto simp: current_record_def previous_record_def find_None_iff)

lemma cardPriceChanges_inv:
  "map fst (cardPriceChanges_of s f rows) = first_keys (map key_of rows) \<and>
   (\<forall>k\<in>key_of ` set rows. map_of (cardPriceChanges_of s f rows) k = Some (entry_of s f rows k))"
proof (induction rows rule: rev_induct)
  case Nil
  show ?case by (simp add: cardPriceChanges_of_def first_keys_def)
next
  case (snoc x xs)
  let ?m = "cardPriceChanges_of s f xs"
  let ?k = "key_of x"
  have step: "cardPriceChanges_of s f (xs @ [x]) = topGainers_step s f ?m x"
    by (simp add: cardPriceChanges_of_def)
  have keys: "map fst ?m = first_keys (map key_of xs)" using snoc by simp
  have look: "\<And>k. k \<in> key_of ` set xs \<Longrightarrow> map_of ?m k = Some (entry_of s f xs k)" using snoc by blast
  have has: "Map_has ?m ?k \<longleftrightarrow> ?k \<in> key_of ` set xs"
    by (simp add: Map_has_iff keys set_first_keys)
  show ?case
  proof (cases "?k \<in> key_of ` set xs")
    case True
    have ex: "map_of ?m ?k = Some (entry_of s f xs ?k)" using look[OF True] .
    have A: "map fst (topGainers_step s f ?m x) = first_keys (map key_of (xs @ [x]))"
      using True has keys
      by (auto simp: topGainers_step_def Let_def Map_set_keys Map_get_def first_keys_snoc set_first_keys)
    have B: "map_of (topGainers_step s f ?m x) k = Some (entry_of s f (xs @ [x]) k)"
      if "k \<in> key_of ` set (xs @ [x])" for k
    proof (cases "k = ?k")
      case False
      then have "k \<in> key_of ` set xs" using that by auto
      then show ?thesis using False has True look[of k]
        by (auto simp: topGainers_step_def Let_def Map_set_lookup Map_get_def entry_of_def entry_snoc_other)
    next
      case kk: True
      have fr: "first_record (xs @ [x]) ?k = first_record xs ?k"
        using True by (auto simp: first_record_def find_append find_None_iff split: option.splits)
      show ?thesis unfolding kk
        using has True ex
        apply (simp add: topGainers_step_def Let_def Map_set_lookup Map_get_def)
        apply (simp add: entry_of_def fr)
        apply (auto simp: current_record_def previous_record_def find_append
               price_or0_def split: option.splits dest: find_Some_mem)
        done
    qed
    show ?thesis unfolding step using A B by blast
  next
    case False
    have A: "map fst (topGainers_step s f ?m x) = first_keys (map key_of (xs @ [x]))"
      using False has keys
      by (auto simp: topGainers_step_def Let_def Map_set_keys Map_get_def first_keys_snoc set_first_keys)
    have B: "map_of (topGainers_step s f ?m x) k = Some (entry_of s f (xs @ [x]) k)"
      if "k \<in> key_of ` set (xs @ [x])" for k
    proof (cases "k = ?k")
      case F2: False
      then have "k \<in> key_of ` set xs" using that by auto
      then show ?thesis using F2 has False look[of k]
        by (auto simp: topGainers_step_def Let_def Map_set_lookup Map_get_def entry_of_def entry_snoc_other)
    next
      case kk: True
      have "first_record xs ?k = None" using False by (simp add: first_record_None)
      then have fr: "first_record (xs @ [x]) ?k = Some x"
        by (simp add: first_record_def find_append)
      have nw: "current_record s xs ?k = None" "previous_record s f xs ?k = None"
        using no_key_no_window[OF False] by auto
      show ?thesis unfolding kk
        using has False nw
        apply (simp add: topGainers_step_def Let_def Map_set_lookup Map_get_def)
        apply (simp add: entry_of_def fr)
        apply (auto simp: current_record_def previous_record_def find_append
               price_or0_def split: option.splits)
        done
    qed
    show ?thesis unfolding step using A B by blast
  qed
qed

lemma cardPriceChanges_values:
  "Map_values (cardPriceChanges_of s f rows) = map (entry_of s f rows) (first_keys (map key_of rows))"
proof -
  let ?m = "cardPriceChanges_of s f rows"
  have k: "map fst ?m = first_keys (map key_of rows)" using cardPriceChanges_inv by blast
  then have d: "distinct (map fst ?m)" by (simp add: distinct_first_keys)
  have "map snd ?m = map (\<lambda>k. the (map_of ?m k)) (first_keys (map key_of rows))"
    using values_by_keys[OF d] k by simp
  also have "\<dots> = map (entry_of s f rows) (first_keys (map key_of rows))"
    using cardPriceChanges_inv[of s f rows] by (intro map_cong) (auto simp: set_first_keys)
  finally show ?thesis by (simp add: Map_values_def)
qed

lemma window_change_entry:
  assumes "k \<in> key_of ` set rows"
  shows "window_change s f rows k =
         (if currentPrice (entry_of s f rows k) > 0 \<and> previousPrice (entry_of s f rows k) > 0
          then Some (with_change (entry_of s f rows k)) else None)"
proof -
  obtain r0 where "first_record rows k = Some r0"
    using assms first_record_None[of rows k] by (cases "first_record rows k") auto
  then show ?thesis
    by (auto simp: window_change_def entry_of_def with_change_def price_or0_def Let_def split: option.splits)
qed

lemma priceChanges_kept_eq:
  "priceChanges_kept s f rows = List.map_filter (window_change s f rows) (first_keys (map key_of rows))"
proof -
  have "List.map_filter (window_change s f rows) ks =
        map with_change (filter (\<lambda>item. currentPrice item > 0 \<and> previousPrice item > 0) (map (entry_of s f rows) ks))"
    if "set ks \<subseteq> key_of ` set rows" for ks
    using that
  proof (induction ks)
    case Nil
    show ?case by (simp add: List.map_filter_simps)
  next
    case (Cons k ks)
    then show ?case
      by (simp add: List.map_filter_simps window_change_entry)
  qed
  then show ?thesis
    by (simp add: priceChanges_kept_def cardPriceChanges_values set_first_keys)
qed

lemma gainers_of_Nil: "gainers_of s f [] limit = []"
  by (cases limit) (simp_all add: gainers_of_def priceChanges_kept_def cardPriceChanges_of_def Map_values_def)

lemma getTopGainers_ok:
  assumes "select_recent_prices supabase (daysAgo now 14) (if truthy game then game else None) =
             \<lparr>data = Some rows, error = None\<rparr>"
  shows "PriceRepository_getTopGainers supabase now game limit =
           Inr (map (gainer_row now)
                  (gainers_of (daysAgo now 7) (daysAgo now 14) rows (or_default (Num 10) limit)))"
  using assms by (simp add: PriceRepository_getTopGainers_def Let_def gainers_of_Nil)

lemma sorted_desc_sort_key:
  "sorted_wrt (\<lambda>a b. changePercent a \<ge> changePercent b) (sort_key (\<lambda>item. - changePercent item) xs)"
proof -
  have "sorted (map (\<lambda>item. - changePercent item) (sort_key (\<lambda>item. - changePercent item) xs))"
    by (rule sorted_sort_key)
  then show ?thesis by (simp add: sorted_wrt_map)
qed

lemma gainers_of_sorted:
  "sorted_wrt (\<lambda>a b. changePercent a \<ge> changePercent b) (gainers_of s f rows limit)"
  by (cases limit) (simp_all add: gainers_of_def sorted_desc_sort_key sorted_wrt_take)

lemma gainers_of_length:
  "0 \<le> n \<Longrightarrow> int (length (gainers_of s f rows (Num n))) \<le> n"
  by (simp add: gainers_of_def)




section \<open>Evaluating the examples\<close>

lemmas ex_defs = mk_price_def with_card_def dark_magician_def black_lotus_def ex_now_def
  daysAgo_def day_ms_def cardPrice.extend_def cardPriceWithCard.fields_def

lemma gain_rows_query:
  "select_recent_prices (table_client gain_db) (daysAgo ex_now 14) None = \<lparr>data = Some gain_rows, error = None\<rparr>"
  by (simp add: table_client_def gain_db_def gain_rows_def ok_def ex_defs)

lemma odd_rows_query:
  "select_recent_prices (table_client odd_db) (daysAgo ex_now 14) None = \<lparr>data = Some odd_rows, error = None\<rparr>"
  by (simp add: table_client_def odd_db_def odd_rows_def ok_def ex_defs)



lemmas win_defs = window_change_def first_record_def current_record_def previous_record_def
  first_keys_def key_of_def List.map_filter_simps

lemmas stats_defs = CollectionRepository_getCollectionStats_def cardPriceMap_of_def
  cardPriceMap_step_def totalValue_step_def price_or_zero_def rarest_label_def cardKey_def
  Map_has_def Map_get_def stats_client_def mk_row_def dark_magician_def black_lotus_def

lemmas req_defs = days_366_request_def zero_quantity_request_def chess_card_request_def
  get_request_def post_request_def segments_def param_def pathSegments_of_def searchParams_get_def
  or_else_def parseInt_def is_space_def digit_of_def

section \<open>The price-history query\<close>

lemma table_history:
  "select_price_history (table_client db) cardId cond cutoff =
     \<lparr>data = Some (sort_key recorded_at (history_rows db cardId cond cutoff)), error = None\<rparr>"
  by (simp add: table_client_def ok_def history_rows_def)

lemma getPriceHistory_table:
  assumes "cardId \<noteq> []" "cond \<in> set validConditions" "d \<le> 365" "valid_time (daysAgo now d)"
  shows "PriceService_getPriceHistory (table_client db) now cardId cond (Some (Num d)) =
           Inr \<lparr>ph_card_id = cardId, ph_condition = cond,
                prices = map pricePoint_of
                           (sort_key recorded_at (history_rows db cardId cond (daysAgo now d)))\<rparr>"
proof -
  have "cond \<noteq> []" using assms(2) by (auto simp: validConditions_def)
  then show ?thesis using assms
    by (simp add: PriceService_getPriceHistory_def PriceRepository_getPriceHistory_def
        or_default_def table_history Let_def)
qed

lemma getPriceHistory_rejects:
  assumes "365 < d \<or> cond \<notin> set validConditions"
  shows "\<exists>msg. PriceService_getPriceHistory supabase now cardId cond (Some (Num d)) = Inl (Error msg)"
  using assms by (auto simp: PriceService_getPriceHistory_def or_default_def Let_def)

lemma getPriceHistory_Error_only:
  assumes "cardId \<noteq> []" "cond \<in> set validConditions"
    and "PriceService_getPriceHistory supabase now cardId cond (Some (Num d)) = Inl (Error msg)"
  shows "365 < d"
proof (rule ccontr)
  assume "\<not> 365 < d"
  moreover have "cond \<noteq> []" using assms(2) by (auto simp: validConditions_def)
  ultimately show False using assms
    by (auto simp: PriceService_getPriceHistory_def PriceRepository_getPriceHistory_def
        or_default_def Let_def split: option.splits sum.splits if_splits)
qed

section \<open>The collection statistics\<close>



lemma cardPriceMap_distinct_lookup:
  assumes "distinct (map cardKey rows)"
  shows "map_of (cardPriceMap_of rows) k =
           map_option card_prices (List.find (\<lambda>r. cardKey r = k) rows)"
  using assms
proof (induction rows arbitrary: k rule: rev_induct)
  case Nil
  show ?case by (simp add: cardPriceMap_of_def)
next
  case (snoc x xs)
  then have d: "distinct (map cardKey xs)" and nx: "cardKey x \<notin> cardKey ` set xs" by auto
  have IH: "\<And>k. map_of (foldl cardPriceMap_step [] xs) k =
                 map_option card_prices (List.find (\<lambda>r. cardKey r = k) xs)"
    using snoc.IH[OF d] by (simp add: cardPriceMap_of_def)
  have none: "List.find (\<lambda>r. cardKey r = cardKey x) xs = None"
    unfolding find_None_iff using nx by (metis imageI)
  show ?case
    using none
    by (auto simp: cardPriceMap_of_def cardPriceMap_step_def Map_has_def Map_get_def
        Map_set_lookup IH find_append split: option.splits)
qed














section \<open>The statuses of the handlers\<close>

lemma price_try_status:
  "PriceController_try supabase now req = Inr r \<Longrightarrow>
     status r \<in> {200, 201, 400, 405} \<and> (status r = 400 \<longleftrightarrow> price_presence_check_fails req)"
  by (auto simp: PriceController_try_def price_presence_check_fails_def segments_def param_def
      Let_def respond_def respond_error_def split: if_splits sum.splits option.splits)

lemma price_presence_check_returns:
  "price_presence_check_fails req \<Longrightarrow> \<exists>r. PriceController_try supabase now req = Inr r"
  by (auto simp: PriceController_try_def price_presence_check_fails_def segments_def param_def
      Let_def split: if_splits)

lemma price_status_400_iff:
  "status (PriceController_handleRequest supabase now req) = 400 \<longleftrightarrow> price_presence_check_fails req"
proof (cases "PriceController_try supabase now req")
  case (Inl e)
  then have "\<not> price_presence_check_fails req"
    using price_presence_check_returns[of req supabase now] by auto
  then show ?thesis using Inl by (simp add: PriceController_handleRequest_def respond_error_def)
next
  case (Inr r)
  then show ?thesis using price_try_status[OF Inr] by (simp add: PriceController_handleRequest_def)
qed

lemma card_try_status:
  "CardController_try supabase req = Inr r \<Longrightarrow> status r \<in> {200, 201, 405}"
  by (auto simp: CardController_try_def Let_def respond_def respond_error_def
      split: if_splits sum.splits option.splits)

lemma card_status:
  "status (CardController_handleRequest supabase req) \<in> {200, 201, 404, 405, 500}"
  using card_try_status[of supabase req]
  by (auto simp: CardController_handleRequest_def respond_error_def split: sum.splits)

lemma collection_try_status:
  "CollectionController_try supabase userId req = Inr r \<Longrightarrow> status r \<in> {200, 201, 405}"
  by (auto simp: CollectionController_try_def Let_def respond_def respond_error_def
      split: if_splits sum.splits option.splits)

lemma collection_status:
  "status (CollectionController_handleRequest supabase req) \<in> {200, 201, 401, 405, 500}"
  using collection_try_status[of supabase _ req]
  by (auto simp: CollectionController_handleRequest_def respond_error_def split: sum.splits option.splits)

lemma history_days_500:
  assumes "req_method req = ''GET''" "''top-gainers'' \<notin> set (segments req)"
    "''history'' \<in> set (segments req)"
    "truthy (param req ''card_id'')" "truthy (param req ''condition'')"
    "parseInt (or_else (param req ''days'') ''30'') = Num d" "365 < d"
  shows "PriceController_handleRequest supabase now req =
           respond_error 500 ''Cannot fetch price history for more than 365 days''"
  using assms
  by (cases "param req ''card_id''"; cases "param req ''condition''")
     (simp_all add: PriceController_handleRequest_def PriceController_try_def
       PriceService_getPriceHistory_def segments_def param_def Let_def or_default_def error_message_def)

lemma history_condition_500:
  assumes "req_method req = ''GET''" "''top-gainers'' \<notin> set (segments req)"
    "''history'' \<in> set (segments req)"
    "truthy (param req ''card_id'')" "param req ''condition'' = Some c" "c \<noteq> []"
    "c \<notin> set validConditions"
    "parseInt (or_else (param req ''days'') ''30'') = Num d" "d \<le> 365"
  shows "PriceController_handleRequest supabase now req = respond_error 500 ''Invalid card condition''"
  using assms
  by (cases "param req ''card_id''")
     (simp_all add: PriceController_handleRequest_def PriceController_try_def
       PriceService_getPriceHistory_def segments_def param_def Let_def or_default_def error_message_def)

lemma top_gainers_limit_500:
  assumes "req_method req = ''GET''" "''top-gainers'' \<in> set (segments req)"
    "truthy (param req ''game'') \<longrightarrow> the (param req ''game'') \<in> set validGames"
    "parseInt (or_else (param req ''limit'') ''10'') = Num n" "50 < n"
  shows "PriceController_handleRequest supabase now req = respond_error 500 ''Limit cannot exceed 50''"
  using assms
  by (simp add: PriceController_handleRequest_def PriceController_try_def
       PriceService_getTopGainers_def segments_def param_def Let_def or_default_def error_message_def)

lemma top_gainers_game_500:
  assumes "req_method req = ''GET''" "''top-gainers'' \<in> set (segments req)"
    "param req ''game'' = Some g" "g \<noteq> []" "g \<notin> set validGames"
  shows "PriceController_handleRequest supabase now req = respond_error 500 ''Invalid game type''"
  using assms
  by (simp add: PriceController_handleRequest_def PriceController_try_def
       PriceService_getTopGainers_def segments_def param_def Let_def or_default_def error_message_def)

lemma add_price_500:
  assumes "req_method req = ''POST''" "req_json req = Some b"
    "truthy (j_card_id b)" "truthy (j_condition b)" "j_price b = Some p" "p \<le> 0"
  shows "PriceController_handleRequest supabase now req = respond_error 500 ''Price must be greater than 0''"
  using assms
  by (simp add: PriceController_handleRequest_def PriceController_try_def
       PriceService_addPrice_def Let_def or_default_def error_message_def)

lemma add_quantity_500:
  assumes "req_method req = ''POST''" "req_json req = Some b"
    "truthy (req_authorization req)" "auth_getUser supabase (the (req_authorization req)) = Some u"
    "u \<noteq> []" "truthy (cl_card_id b)" "cl_quantity b = Some q" "q \<le> 0"
  shows "CollectionController_handleRequest supabase req =
           respond_error 500 ''Quantity must be greater than 0''"
  using assms
  by (simp add: CollectionController_handleRequest_def CollectionController_try_def
       CollectionService_addCardToCollection_def Let_def error_message_def)

lemma create_card_game_500:
  assumes "req_method req = ''POST''" "req_json req = Some b"
    "truthy (cj_name b)" "trim (the (cj_name b)) \<noteq> []"
    "\<forall>g. cj_game b = Some g \<longrightarrow> g \<notin> set validGames"
  shows "CardController_handleRequest supabase req = respond_error 500 ''Invalid game type''"
  using assms
  by (auto simp add: CardController_handleRequest_def CardController_try_def
       CardService_createCard_def Let_def error_message_def split: option.splits)


section \<open>Claims about the latest-price resolver\<close>

text \<open>
  Claim C4. For every list of price rows that the store returns for one card,
  \<^verbatim>\<open>getLatestPricesForCard\<close> returns exactly one row per distinct condition present
  in the input, the returned row is one of the input rows, and its \<^verbatim>\<open>recorded_at\<close>
  is greater than or equal to that of every input row of the same condition.
\<close>

theorem latest_price_one_per_condition:
  assumes "select_card_prices supabase cardId = \<lparr>data = Some rows, error = None\<rparr>"
  shows "\<exists>res. PriceRepository_getLatestPricesForCard supabase cardId = Inr res \<and>
           distinct (map condition res) \<and>
           set (map condition res) = set (map condition rows) \<and>
           (\<forall>p\<in>set res. p \<in> set rows \<and>
              (\<forall>r\<in>set rows. condition r = condition p \<longrightarrow> recorded_at r \<le> recorded_at p))"
proof -
  let ?m = "latestPrices_of rows"
  have res: "PriceRepository_getLatestPricesForCard supabase cardId = Inr (map snd ?m)"
    using assms by (simp add: PriceRepository_getLatestPricesForCard_def Map_values_def)
  have ent: "\<And>k v. (k, v) \<in> set ?m \<Longrightarrow> condition v = k \<and> v \<in> set rows \<and>
               (\<forall>r\<in>set rows. condition r = k \<longrightarrow> recorded_at r \<le> recorded_at v)"
    using find_Some_mem[of _ rows] unfolding latestPrices_entry first_latest_def by blast
  have "map (\<lambda>e. condition (snd e)) ?m = map fst ?m"
  proof (rule map_cong[OF refl])
    fix e assume "e \<in> set ?m"
    then show "condition (snd e) = fst e" using ent[of "fst e" "snd e"] by simp
  qed
  then have conds: "map condition (map snd ?m) = map fst ?m"
    by (simp add: comp_def)
  have keys: "set (map fst ?m) = condition ` set rows"
  proof -
    have "k \<in> set (map fst ?m) \<longleftrightarrow> k \<in> condition ` set rows" for k
      using latestPrices_lookup[of rows k] first_latest_None[of rows k]
      by (metis map_of_eq_None_iff set_map)
    then show ?thesis by blast
  qed
  have mx: "\<forall>p\<in>set (map snd ?m). p \<in> set rows \<and>
              (\<forall>r\<in>set rows. condition r = condition p \<longrightarrow> recorded_at r \<le> recorded_at p)"
    using ent by fastforce
  have d: "distinct (map condition (map snd ?m))"
    unfolding conds by (rule latestPrices_keys_distinct)
  have s: "set (map condition (map snd ?m)) = set (map condition rows)"
    unfolding conds using keys by simp
  show ?thesis using res d s mx by blast
qed

text \<open>The theorem at the rows of one card in \<open>prices_db\<close>.\<close>

theorem latest_price_one_per_condition_witness:
  "select_card_prices (table_client prices_db) ''card-a'' =
     \<lparr>data = Some [mk_price ''p3'' ''card-a'' ''near_mint'' 45 300,
                    mk_price ''p2'' ''card-a'' ''mint'' 60 200,
                    mk_price ''p1'' ''card-a'' ''near_mint'' 40 100], error = None\<rparr> \<and>
   (\<exists>res. PriceRepository_getLatestPricesForCard (table_client prices_db) ''card-a'' = Inr res \<and>
           distinct (map condition res) \<and>
           set (map condition res) = set (map condition [mk_price ''p3'' ''card-a'' ''near_mint'' 45 300,
                    mk_price ''p2'' ''card-a'' ''mint'' 60 200,
                    mk_price ''p1'' ''card-a'' ''near_mint'' 40 100]) \<and>
           (\<forall>p\<in>set res. p \<in> set [mk_price ''p3'' ''card-a'' ''near_mint'' 45 300,
                    mk_price ''p2'' ''card-a'' ''mint'' 60 200,
                    mk_price ''p1'' ''card-a'' ''near_mint'' 40 100] \<and>
              (\<forall>r\<in>set [mk_price ''p3'' ''card-a'' ''near_mint'' 45 300,
                    mk_price ''p2'' ''card-a'' ''mint'' 60 200,
                    mk_price ''p1'' ''card-a'' ''near_mint'' 40 100]. condition r = condition p \<longrightarrow> recorded_at r \<le> recorded_at p)))"
proof -
  have h: "select_card_prices (table_client prices_db) ''card-a'' =
     \<lparr>data = Some [mk_price ''p3'' ''card-a'' ''near_mint'' 45 300,
                    mk_price ''p2'' ''card-a'' ''mint'' 60 200,
                    mk_price ''p1'' ''card-a'' ''near_mint'' 40 100], error = None\<rparr>"
    by (simp add: table_client_def prices_db_def ok_def mk_price_def)
  show ?thesis using h latest_price_one_per_condition[OF h] by blast
qed


text \<open>
  Claim C2, as the code has it. When \<open>p\<close> is the first row of its condition that
  reaches the maximum \<^verbatim>\<open>recorded_at\<close> (every earlier row of the condition is
  strictly older, no later row is newer), the resolver keeps \<open>p\<close> and no other row of
  that condition: among rows that share the maximum timestamp the first one encountered
  wins, because a later row replaces the kept one only when it is strictly newer.
\<close>

theorem latest_price_tie_keeps_first:
  assumes "select_card_prices supabase cardId = \<lparr>data = Some (xs @ p # ys), error = None\<rparr>"
    and "\<forall>r\<in>set xs. condition r = condition p \<longrightarrow> recorded_at r < recorded_at p"
    and "\<forall>r\<in>set ys. condition r = condition p \<longrightarrow> recorded_at r \<le> recorded_at p"
  shows "\<exists>res. PriceRepository_getLatestPricesForCard supabase cardId = Inr res \<and>
           p \<in> set res \<and> (\<forall>q\<in>set res. condition q = condition p \<longrightarrow> q = p)"
proof -
  let ?rows = "xs @ p # ys"
  let ?m = "latestPrices_of ?rows"
  have res: "PriceRepository_getLatestPricesForCard supabase cardId = Inr (map snd ?m)"
    using assms(1) by (simp add: PriceRepository_getLatestPricesForCard_def Map_values_def)
  have "List.find (\<lambda>r. condition r = condition p \<and>
            (\<forall>r'\<in>set ?rows. condition r' = condition p \<longrightarrow> recorded_at r' \<le> recorded_at r)) xs = None"
    unfolding find_None_iff using assms(2) by fastforce
  moreover have "\<forall>r'\<in>set ?rows. condition r' = condition p \<longrightarrow> recorded_at r' \<le> recorded_at p"
    using assms(2,3) by fastforce
  ultimately have fl: "first_latest ?rows (condition p) = Some p"
    by (simp add: first_latest_def find_append)
  then have pin: "(condition p, p) \<in> set ?m" by (simp add: latestPrices_entry)
  have uniq: "q = p" if "q \<in> set (map snd ?m)" "condition q = condition p" for q
  proof -
    from that(1) obtain k where kq: "(k, q) \<in> set ?m" by auto
    then have "first_latest ?rows k = Some q" by (simp add: latestPrices_entry)
    moreover from this have "condition q = k"
      using find_Some_mem[of _ ?rows q] unfolding first_latest_def by blast
    ultimately show ?thesis using fl that(2) by simp
  qed
  show ?thesis
    using res pin uniq by (intro exI[of _ "map snd ?m"]) force
qed

text \<open>The theorem at two rows of condition \<open>mint\<close> with the same timestamp.\<close>

theorem latest_price_tie_keeps_first_witness:
  "select_card_prices (table_client tie_db) ''card-a'' =
     \<lparr>data = Some ([] @ mk_price ''p1'' ''card-a'' ''mint'' 40 500 #
                     [mk_price ''p2'' ''card-a'' ''mint'' 42 500]), error = None\<rparr> \<and>
   recorded_at (mk_price ''p2'' ''card-a'' ''mint'' 42 500) =
     recorded_at (mk_price ''p1'' ''card-a'' ''mint'' 40 500) \<and>
   (\<exists>res. PriceRepository_getLatestPricesForCard (table_client tie_db) ''card-a'' = Inr res \<and>
           mk_price ''p1'' ''card-a'' ''mint'' 40 500 \<in> set res \<and>
           (\<forall>q\<in>set res. condition q = condition (mk_price ''p1'' ''card-a'' ''mint'' 40 500) \<longrightarrow>
               q = mk_price ''p1'' ''card-a'' ''mint'' 40 500))"
proof -
  have h1: "select_card_prices (table_client tie_db) ''card-a'' =
     \<lparr>data = Some ([] @ mk_price ''p1'' ''card-a'' ''mint'' 40 500 #
                     [mk_price ''p2'' ''card-a'' ''mint'' 42 500]), error = None\<rparr>"
    by (simp add: table_client_def tie_db_def ok_def mk_price_def)
  have h2: "\<forall>r\<in>set []. condition r = condition (mk_price ''p1'' ''card-a'' ''mint'' 40 500) \<longrightarrow>
        recorded_at r < recorded_at (mk_price ''p1'' ''card-a'' ''mint'' 40 500)" by simp
  have h3: "\<forall>r\<in>set [mk_price ''p2'' ''card-a'' ''mint'' 42 500].
        condition r = condition (mk_price ''p1'' ''card-a'' ''mint'' 40 500) \<longrightarrow>
        recorded_at r \<le> recorded_at (mk_price ''p1'' ''card-a'' ''mint'' 40 500)"
    by (simp add: mk_price_def)
  have h4: "recorded_at (mk_price ''p2'' ''card-a'' ''mint'' 42 500) =
     recorded_at (mk_price ''p1'' ''card-a'' ''mint'' 40 500)"
    by (simp add: mk_price_def)
  show ?thesis using h1 h4 latest_price_tie_keeps_first[OF h1 h2 h3] by blast
qed

text \<open>
  Claim C2 as stated (the last row encountered among those sharing the maximum timestamp
  is kept) fails: the store returns \<open>p1\<close> then \<open>p2\<close>, both \<open>mint\<close> at time 500,
  and the resolver returns \<open>p1\<close>, the first one.
\<close>

theorem latest_price_last_tie_counterexample:
  "PriceRepository_getLatestPricesForCard (table_client tie_db) ''card-a'' =
     Inr [mk_price ''p1'' ''card-a'' ''mint'' 40 500] \<and>
   select_card_prices (table_client tie_db) ''card-a'' =
     \<lparr>data = Some [mk_price ''p1'' ''card-a'' ''mint'' 40 500,
                    mk_price ''p2'' ''card-a'' ''mint'' 42 500], error = None\<rparr>"
  by (simp add: PriceRepository_getLatestPricesForCard_def table_client_def tie_db_def ok_def
      mk_price_def latestPrices_of_def latestPrices_step_def Map_has_def Map_get_def Map_values_def)

section \<open>Claims about the top-gainers computation\<close>

text \<open>
  Claim C1, as the code has it. The scan of \<^verbatim>\<open>getTopGainers\<close> (lines 112-151)
  yields, for the keys \<^verbatim>\<open>card_id-condition\<close> of the scanned rows in the order of
  their first occurrence, what \<open>window_change\<close> gives: \<open>current\<close> is the price of
  the first row encountered with \<^verbatim>\<open>recorded_at\<close> at or after \<open>now - 7d\<close> (there is
  no upper bound at \<open>now\<close>) and a price other than 0, \<open>previous\<close> the price of the
  first row encountered within \<open>[now - 14d, now - 7d)\<close> and a price other than 0 (0 is
  the scan's mark for "not set yet"); a key is kept only when both exist and are
  positive; and for a kept key \<open>change = current - previous\<close> and
  \<open>changePercent = (change / previous) * 100\<close>.
\<close>

theorem top_gainers_windows:
  "priceChanges_kept (daysAgo now 7) (daysAgo now 14) rows =
     List.map_filter (window_change (daysAgo now 7) (daysAgo now 14) rows)
       (first_keys (map key_of rows))"
  by (rule priceChanges_kept_eq)

text \<open>The theorem at \<open>gain_rows\<close>: the key with current 110 and previous 100 has
  \<open>changePercent = 10\<close>, and the key without a previous row is left out.\<close>

theorem top_gainers_windows_witness:
  "priceChanges_kept (daysAgo ex_now 7) (daysAgo ex_now 14) gain_rows =
     [\<lparr>pc_card = dark_magician, currentPrice = 110, previousPrice = 100,
       change = 10, changePercent = 10\<rparr>]"
  using top_gainers_windows[of ex_now gain_rows]
  by (simp add: gain_rows_def win_defs ex_defs)

text \<open>
  Claim C1 as stated fails on \<open>odd_rows\<close>. The row of \<open>card-a\<close> dated after \<open>ex_now\<close>
  lies outside \<open>[now - 7d, now]\<close>, so the claim drops that key, while the code takes the
  row as \<open>current\<close> and keeps the key. For \<open>card-b\<close> the first row within the last 7
  days has price 0: the claim takes it as \<open>current\<close>, the code skips it and takes the
  next row of the window, priced 110.
\<close>

theorem top_gainers_windows_counterexample:
  "priceChanges_kept (daysAgo ex_now 7) (daysAgo ex_now 14) odd_rows =
     [\<lparr>pc_card = dark_magician, currentPrice = 110, previousPrice = 100,
       change = 10, changePercent = 10\<rparr>,
      \<lparr>pc_card = black_lotus, currentPrice = 110, previousPrice = 100,
       change = 10, changePercent = 10\<rparr>] \<and>
   claimed_priceChanges ex_now odd_rows =
     [\<lparr>pc_card = black_lotus, currentPrice = 0, previousPrice = 100,
       change = - 100, changePercent = - 100\<rparr>]"
  by (simp add: priceChanges_kept_def cardPriceChanges_of_def topGainers_step_def Map_has_def
      Map_get_def Map_values_def with_change_def
      claimed_priceChanges_def claimed_change_def claimed_current_def
      claimed_previous_def odd_rows_def win_defs ex_defs)





text \<open>
  Claim C8. Every element of the result of \<^verbatim>\<open>getTopGainers\<close> has the currency
  \<^verbatim>\<open>EUR\<close>, a \<^verbatim>\<open>recorded_at\<close> equal to the time of the computation, the
  condition \<^verbatim>\<open>near_mint\<close> and the empty string as id, whatever the scanned rows
  hold.
\<close>

theorem top_gainers_row_constants:
  assumes "PriceRepository_getTopGainers supabase now game limit = Inr res"
    and "x \<in> set res"
  shows "currency x = ''EUR'' \<and> recorded_at x = now \<and> condition x = ''near_mint'' \<and> p_id x = []"
  using assms
  by (auto simp: PriceRepository_getTopGainers_def Let_def gainer_row_def
      split: option.splits if_splits)


text \<open>The theorem at the second gainer of \<open>odd_db\<close>: its rows in the store have the
  condition \<^verbatim>\<open>light_play\<close>, ids of their own and dates other than \<open>ex_now\<close>.\<close>

theorem top_gainers_row_constants_witness:
  "PriceRepository_getTopGainers (table_client odd_db) ex_now None (Some (Num 5)) =
     Inr [gainer_row ex_now \<lparr>pc_card = dark_magician, currentPrice = 110, previousPrice = 100,
                               change = 10, changePercent = 10\<rparr>,
          gainer_row ex_now \<lparr>pc_card = black_lotus, currentPrice = 110, previousPrice = 100,
                               change = 10, changePercent = 10\<rparr>] \<and>
   currency (gainer_row ex_now \<lparr>pc_card = black_lotus, currentPrice = 110, previousPrice = 100,
                               change = 10, changePercent = 10\<rparr>) = ''EUR'' \<and>
   recorded_at (gainer_row ex_now \<lparr>pc_card = black_lotus, currentPrice = 110, previousPrice = 100,
                               change = 10, changePercent = 10\<rparr>) = ex_now \<and>
   condition (gainer_row ex_now \<lparr>pc_card = black_lotus, currentPrice = 110, previousPrice = 100,
                               change = 10, changePercent = 10\<rparr>) = ''near_mint'' \<and>
   p_id (gainer_row ex_now \<lparr>pc_card = black_lotus, currentPrice = 110, previousPrice = 100,
                               change = 10, changePercent = 10\<rparr>) = []"
proof -
  let ?a = "gainer_row ex_now \<lparr>pc_card = dark_magician, currentPrice = 110, previousPrice = 100,
                               change = 10, changePercent = 10\<rparr>"
  let ?b = "gainer_row ex_now \<lparr>pc_card = black_lotus, currentPrice = 110, previousPrice = 100,
                               change = 10, changePercent = 10\<rparr>"
  have k: "priceChanges_kept (daysAgo ex_now 7) (daysAgo ex_now 14) odd_rows =
     [\<lparr>pc_card = dark_magician, currentPrice = 110, previousPrice = 100,
       change = 10, changePercent = 10\<rparr>,
      \<lparr>pc_card = black_lotus, currentPrice = 110, previousPrice = 100,
       change = 10, changePercent = 10\<rparr>]"
    by (simp add: priceChanges_kept_def cardPriceChanges_of_def topGainers_step_def Map_has_def
      Map_get_def Map_values_def with_change_def odd_rows_def key_of_def ex_defs)
  have h1: "PriceRepository_getTopGainers (table_client odd_db) ex_now None (Some (Num 5)) = Inr [?a, ?b]"
    using getTopGainers_ok[of "table_client odd_db" ex_now None odd_rows "Some (Num 5)"] odd_rows_query k
    by (simp add: or_default_def gainers_of_def)
  have h2: "?b \<in> set [?a, ?b]" by simp
  show ?thesis using h1 top_gainers_row_constants[OF h1 h2] by simp
qed


section \<open>Claims about the price-history query\<close>

text \<open>
  Claim C6, as the code has it. \<^verbatim>\<open>PriceService.getPriceHistory\<close> fails with an
  \<^verbatim>\<open>Error\<close> when the day-count exceeds 365 or when the condition is not one of the
  six valid values. For a non-empty card id, a valid condition and a day-count of at
  most 365 whose cutoff \<open>now - days\<close> is a date within the range of \<^verbatim>\<open>Date\<close>, on
  the table store, it returns a history whose points are exactly the
  card's rows of that condition with \<^verbatim>\<open>recorded_at\<close> at or after \<open>now - days\<close>
  (there is no upper bound at \<open>now\<close>), sorted ascending by \<^verbatim>\<open>recorded_at\<close>; when no
  row qualifies the history is empty and no error is raised.
\<close>

theorem price_history_contract:
  "(365 < d \<or> cond \<notin> set validConditions \<longrightarrow>
      (\<exists>msg. PriceService_getPriceHistory supabase now cardId cond (Some (Num d)) = Inl (Error msg))) \<and>
   (cardId \<noteq> [] \<and> cond \<in> set validConditions \<and> d \<le> 365 \<and> valid_time (daysAgo now d) \<longrightarrow>
      (\<exists>h. PriceService_getPriceHistory (table_client db) now cardId cond (Some (Num d)) = Inr h \<and>
           (\<forall>p\<in>set (prices h). daysAgo now d \<le> pp_recorded_at p) \<and>
           sorted (map pp_recorded_at (prices h)) \<and>
           set (prices h) =
             pricePoint_of ` {r \<in> set (card_prices_table db).
                               card_id r = cardId \<and> condition r = cond \<and> daysAgo now d \<le> recorded_at r}))"
proof (intro conjI impI)
  assume "365 < d \<or> cond \<notin> set validConditions"
  then show "\<exists>msg. PriceService_getPriceHistory supabase now cardId cond (Some (Num d)) = Inl (Error msg)"
    by (rule getPriceHistory_rejects)
next
  assume a: "cardId \<noteq> [] \<and> cond \<in> set validConditions \<and> d \<le> 365 \<and> valid_time (daysAgo now d)"
  let ?rows = "sort_key recorded_at (history_rows db cardId cond (daysAgo now d))"
  let ?h = "\<lparr>ph_card_id = cardId, ph_condition = cond, prices = map pricePoint_of ?rows\<rparr>"
  have r: "PriceService_getPriceHistory (table_client db) now cardId cond (Some (Num d)) = Inr ?h"
    using a getPriceHistory_table by blast
  have b: "\<forall>p\<in>set (prices ?h). daysAgo now d \<le> pp_recorded_at p"
    by (auto simp: history_rows_def pricePoint_of_def)
  have "map pp_recorded_at (map pricePoint_of ?rows) = map recorded_at ?rows"
    by (simp add: pricePoint_of_def comp_def)
  then have c: "sorted (map pp_recorded_at (prices ?h))"
    by (simp del: map_map)
  have e: "set (prices ?h) = pricePoint_of ` {r \<in> set (card_prices_table db).
                               card_id r = cardId \<and> condition r = cond \<and> daysAgo now d \<le> recorded_at r}"
    by (auto simp: history_rows_def)
  show "\<exists>h. PriceService_getPriceHistory (table_client db) now cardId cond (Some (Num d)) = Inr h \<and>
           (\<forall>p\<in>set (prices h). daysAgo now d \<le> pp_recorded_at p) \<and>
           sorted (map pp_recorded_at (prices h)) \<and>
           set (prices h) =
             pricePoint_of ` {r \<in> set (card_prices_table db).
                               card_id r = cardId \<and> condition r = cond \<and> daysAgo now d \<le> recorded_at r}"
    using r b c e by blast
qed

text \<open>The theorem at \<open>gain_db\<close>: 366 days and the condition \<^verbatim>\<open>poor\<close> are
  rejected, 30 days give the two rows of \<open>card-a\<close> in ascending order, and a condition
  without rows gives an empty history.\<close>

theorem price_history_contract_witness:
  "PriceService_getPriceHistory (table_client gain_db) ex_now ''card-a'' ''near_mint'' (Some (Num 366)) =
     Inl (Error ''Cannot fetch price history for more than 365 days'') \<and>
   PriceService_getPriceHistory (table_client gain_db) ex_now ''card-a'' ''poor'' (Some (Num 30)) =
     Inl (Error ''Invalid card condition'') \<and>
   PriceService_getPriceHistory (table_client gain_db) ex_now ''card-a'' ''near_mint'' (Some (Num 30)) =
     Inr \<lparr>ph_card_id = ''card-a'', ph_condition = ''near_mint'',
          prices = [pricePoint_of (mk_price ''g1'' ''card-a'' ''near_mint'' 100 85708800000),
                    pricePoint_of (mk_price ''g2'' ''card-a'' ''near_mint'' 110 86313600000)]\<rparr> \<and>
   PriceService_getPriceHistory (table_client gain_db) ex_now ''card-a'' ''mint'' (Some (Num 30)) =
     Inr \<lparr>ph_card_id = ''card-a'', ph_condition = ''mint'', prices = []\<rparr>"
proof -
  have v: "''near_mint'' \<in> set validConditions" "''mint'' \<in> set validConditions"
    "''poor'' \<notin> set validConditions" "valid_time (daysAgo ex_now 30)"
    by (simp_all add: validConditions_def valid_time_def ex_defs)
  have 1: "\<exists>msg. PriceService_getPriceHistory (table_client gain_db) ex_now ''card-a'' ''near_mint'' (Some (Num 366)) = Inl (Error msg)"
    using price_history_contract[of 366 "''near_mint''" "table_client gain_db" ex_now "''card-a''" gain_db]
    by simp
  have 2: "\<exists>msg. PriceService_getPriceHistory (table_client gain_db) ex_now ''card-a'' ''poor'' (Some (Num 30)) = Inl (Error msg)"
    using price_history_contract[of 30 "''poor''" "table_client gain_db" ex_now "''card-a''" gain_db] v
    by simp
  have 3: "\<exists>h. PriceService_getPriceHistory (table_client gain_db) ex_now ''card-a'' ''near_mint'' (Some (Num 30)) = Inr h"
    using price_history_contract[of 30 "''near_mint''" "table_client gain_db" ex_now "''card-a''" gain_db] v
    by auto
  have 4: "\<exists>h. PriceService_getPriceHistory (table_client gain_db) ex_now ''card-a'' ''mint'' (Some (Num 30)) = Inr h"
    using price_history_contract[of 30 "''mint''" "table_client gain_db" ex_now "''card-a''" gain_db] v
    by auto
  show ?thesis
    using 1 2 3 4
    by (simp add: PriceService_getPriceHistory_def PriceRepository_getPriceHistory_def
        or_default_def Let_def validConditions_def table_client_def ok_def gain_db_def
        valid_time_def ex_defs)
qed

text \<open>
  Claim C6 as stated (every returned record lies within \<open>[now - days, now]\<close>) fails on
  \<open>odd_db\<close>: the row dated one day after \<open>ex_now\<close> is returned.
\<close>

theorem price_history_future_row_counterexample:
  "PriceService_getPriceHistory (table_client odd_db) ex_now ''card-a'' ''near_mint'' (Some (Num 30)) =
     Inr \<lparr>ph_card_id = ''card-a'', ph_condition = ''near_mint'',
          prices = [pricePoint_of (mk_price ''o4'' ''card-a'' ''near_mint'' 100 85708800000),
                    pricePoint_of (mk_price ''o1'' ''card-a'' ''near_mint'' 110 86486400000)]\<rparr> \<and>
   \<not> pp_recorded_at (pricePoint_of (mk_price ''o1'' ''card-a'' ''near_mint'' 110 86486400000)) \<le> ex_now"
  by (simp add: PriceService_getPriceHistory_def PriceRepository_getPriceHistory_def
        or_default_def Let_def validConditions_def table_client_def ok_def odd_db_def
        pricePoint_of_def valid_time_def ex_defs)

text \<open>
  Claim C10, as the code has it. For a non-empty card id and a valid condition, the
  service fails with an \<^verbatim>\<open>Error\<close> of its validation only when the day-count
  exceeds 365. A day-count of zero or less whose cutoff \<open>now - days\<close> is a date within
  the range of \<^verbatim>\<open>Date\<close> is accepted; the cutoff is then \<open>now\<close> itself for zero
  and later than \<open>now\<close> for a negative day-count, and on the table store the result
  is empty whenever every row is dated before the cutoff: for a negative day-count,
  whenever no row is dated after \<open>now\<close>.
\<close>

theorem price_history_small_days:
  assumes "cardId \<noteq> []" and "cond \<in> set validConditions"
  shows "(PriceService_getPriceHistory supabase now cardId cond (Some (Num d)) = Inl (Error msg) \<longrightarrow> 365 < d) \<and>
         (d \<le> 0 \<and> valid_time (daysAgo now d) \<longrightarrow>
            now \<le> daysAgo now d \<and> (d < 0 \<longrightarrow> now < daysAgo now d) \<and>
            (\<exists>h. PriceService_getPriceHistory (table_client db) now cardId cond (Some (Num d)) = Inr h \<and>
                 ((\<forall>r\<in>set (card_prices_table db). recorded_at r < daysAgo now d) \<longrightarrow> prices h = []) \<and>
                 (d < 0 \<and> (\<forall>r\<in>set (card_prices_table db). recorded_at r \<le> now) \<longrightarrow> prices h = [])))"
proof (intro conjI impI)
  assume "PriceService_getPriceHistory supabase now cardId cond (Some (Num d)) = Inl (Error msg)"
  then show "365 < d" using getPriceHistory_Error_only[OF assms] by blast
next
  assume "d \<le> 0 \<and> valid_time (daysAgo now d)"
  then have "0 \<le> - d * day_ms" by (simp add: day_ms_def)
  then show "now \<le> daysAgo now d" by (simp add: daysAgo_def)
next
  assume "d \<le> 0 \<and> valid_time (daysAgo now d)" "d < 0"
  then show "now < daysAgo now d" by (simp add: daysAgo_def day_ms_def)
next
  assume dv: "d \<le> 0 \<and> valid_time (daysAgo now d)"
  then have d: "d \<le> 0" and vt: "valid_time (daysAgo now d)" by simp_all
  let ?rows = "sort_key recorded_at (history_rows db cardId cond (daysAgo now d))"
  let ?h = "\<lparr>ph_card_id = cardId, ph_condition = cond, prices = map pricePoint_of ?rows\<rparr>"
  have r: "PriceService_getPriceHistory (table_client db) now cardId cond (Some (Num d)) = Inr ?h"
    using d vt assms getPriceHistory_table[where cardId = cardId and cond = cond and d = d and db = db and now = now] by simp
  have lt: "now < daysAgo now d" if "d < 0" using that by (simp add: daysAgo_def day_ms_def)
  have f1: "history_rows db cardId cond (daysAgo now d) = []"
    if "\<forall>r\<in>set (card_prices_table db). recorded_at r < daysAgo now d"
    using that by (fastforce simp: history_rows_def filter_empty_conv)
  have e1: "(\<forall>r\<in>set (card_prices_table db). recorded_at r < daysAgo now d) \<longrightarrow> prices ?h = []"
    using f1 by simp
  have e2: "d < 0 \<and> (\<forall>r\<in>set (card_prices_table db). recorded_at r \<le> now) \<longrightarrow> prices ?h = []"
  proof
    assume "d < 0 \<and> (\<forall>r\<in>set (card_prices_table db). recorded_at r \<le> now)"
    then have "\<forall>r\<in>set (card_prices_table db). recorded_at r < daysAgo now d"
      using lt by fastforce
    then show "prices ?h = []" using f1 by simp
  qed
  show "\<exists>h. PriceService_getPriceHistory (table_client db) now cardId cond (Some (Num d)) = Inr h \<and>
                 ((\<forall>r\<in>set (card_prices_table db). recorded_at r < daysAgo now d) \<longrightarrow> prices h = []) \<and>
                 (d < 0 \<and> (\<forall>r\<in>set (card_prices_table db). recorded_at r \<le> now) \<longrightarrow> prices h = [])"
    using r e1 e2 by blast
qed

text \<open>The theorem at \<open>now_db\<close> and the day-count \<open>- 1\<close>.\<close>

theorem price_history_small_days_witness:
  "''card-a'' \<noteq> [] \<and> ''near_mint'' \<in> set validConditions \<and>
   ex_now < daysAgo ex_now (- 1) \<and>
   PriceService_getPriceHistory (table_client now_db) ex_now ''card-a'' ''near_mint'' (Some (Num (- 1))) =
     Inr \<lparr>ph_card_id = ''card-a'', ph_condition = ''near_mint'', prices = []\<rparr>"
proof -
  have h1: "''card-a'' \<noteq> []" by simp
  have h2: "''near_mint'' \<in> set validConditions" by (simp add: validConditions_def)
  have h3: "\<forall>r\<in>set (card_prices_table now_db). recorded_at r \<le> ex_now"
    by (simp add: now_db_def ex_defs)
  have h4: "valid_time (daysAgo ex_now (- 1))"
    by (simp add: valid_time_def ex_defs)
  from price_history_small_days[OF h1 h2, of "table_client now_db" ex_now "- 1" "[]" now_db] h3 h4
  obtain h where "PriceService_getPriceHistory (table_client now_db) ex_now ''card-a'' ''near_mint'' (Some (Num (- 1))) = Inr h"
    "prices h = []" "ex_now < daysAgo ex_now (- 1)" by auto
  moreover from this(1) have "ph_card_id h = ''card-a''" "ph_condition h = ''near_mint''"
    by (auto simp: PriceService_getPriceHistory_def Let_def split: if_splits sum.splits)
  ultimately show ?thesis using h1 h2 by (cases h) simp
qed

text \<open>
  Claim C10 as stated (for a day-count of zero the cutoff is later than \<open>now\<close> and the
  result is empty whenever no record is future-dated) fails at zero: the cutoff is
  \<open>now\<close>, and the row of \<open>now_db\<close> recorded at \<open>ex_now\<close>, which is not future-dated, is
  returned. Nor is every negative day-count accepted without any error: 200 million
  days ahead of \<open>ex_now\<close> is past the last date a \<^verbatim>\<open>Date\<close> can hold, and
  \<^verbatim>\<open>toISOString\<close> throws.
\<close>

theorem price_history_zero_days_counterexample:
  "daysAgo ex_now 0 = ex_now \<and>
   list_all (\<lambda>r. recorded_at r \<le> ex_now) (card_prices_table now_db) \<and>
   PriceService_getPriceHistory (table_client now_db) ex_now ''card-a'' ''near_mint'' (Some (Num 0)) =
     Inr \<lparr>ph_card_id = ''card-a'', ph_condition = ''near_mint'',
          prices = [pricePoint_of (mk_price ''n1'' ''card-a'' ''near_mint'' 45 86400000000)]\<rparr> \<and>
   PriceService_getPriceHistory (table_client now_db) ex_now ''card-a'' ''near_mint''
       (Some (Num (- 200000000))) =
     Inl (RangeError ''Invalid time value'')"
  by (simp add: PriceService_getPriceHistory_def PriceRepository_getPriceHistory_def
        or_default_def Let_def validConditions_def table_client_def ok_def now_db_def
        valid_time_def ex_defs)

section \<open>Claims about the collection statistics\<close>

text \<open>
  Claim C9. Whatever the store answers, and for every user, the \<^verbatim>\<open>topGainer\<close> field
  returned by \<^verbatim>\<open>getCollectionStats\<close> is the fixed value
  \<^verbatim>\<open>{ name: "Dark Magician", change: 8.2 }\<close>: the repository returns it for every
  input, and the service returns it for every non-empty user id.
\<close>

theorem collection_stats_top_gainer_placeholder:
  "topGainer (CollectionRepository_getCollectionStats supabase userId) =
     \<lparr>tg_name = ''Dark Magician'', tg_change = 82 / 10\<rparr> \<and>
   (userId \<noteq> [] \<longrightarrow>
      (\<exists>stats. CollectionService_getCollectionStats supabase userId = Inr stats \<and>
               topGainer stats = \<lparr>tg_name = ''Dark Magician'', tg_change = 82 / 10\<rparr>))"
  by (simp add: CollectionRepository_getCollectionStats_def CollectionService_getCollectionStats_def
      Let_def split: prod.splits)

text \<open>The theorem at a user with two entries.\<close>

theorem collection_stats_top_gainer_placeholder_witness:
  "topGainer (CollectionRepository_getCollectionStats (stats_client stats_rows) ''u1'') =
     \<lparr>tg_name = ''Dark Magician'', tg_change = 82 / 10\<rparr> \<and>
   CollectionService_getCollectionStats (stats_client stats_rows) ''u1'' =
     Inr \<lparr>totalCards = 2, totalValue = 70,
          topGainer = \<lparr>tg_name = ''Dark Magician'', tg_change = 82 / 10\<rparr>,
          rarest = ''Black Lotus (Alpha)''\<rparr>"
proof -
  have "CollectionService_getCollectionStats (stats_client stats_rows) ''u1'' =
     Inr \<lparr>totalCards = 2, totalValue = 70,
          topGainer = \<lparr>tg_name = ''Dark Magician'', tg_change = 82 / 10\<rparr>,
          rarest = ''Black Lotus (Alpha)''\<rparr>"
    by (simp add: CollectionService_getCollectionStats_def stats_defs stats_rows_def)
  then show ?thesis
    using collection_stats_top_gainer_placeholder[of "stats_client stats_rows" "''u1''"] by simp
qed



section \<open>Claims about the status of a failed validation\<close>

text \<open>
  Claim C3, as the code has it. An error thrown inside a handler's \<^verbatim>\<open>try\<close> block,
  a failed validation of the service layer included, is answered with status 500 and
  the error's message (the cards handler answers \<^verbatim>\<open>Card not found\<close> with 404). So a
  price history of more than 365 days, an invalid condition, a top-gainers limit above
  50, an invalid game, a price or a quantity that is not positive all receive 500.
  Status 400 comes only from the prices handler's own checks, for a \<^verbatim>\<open>GET\<close>
  without \<^verbatim>\<open>card_id\<close> (on the history route: without \<^verbatim>\<open>card_id\<close> or
  \<^verbatim>\<open>condition\<close>); the cards and the collections handlers never answer 400.
\<close>

theorem validation_failure_status:
  "(status (PriceController_handleRequest ps now preq) = 400 \<longleftrightarrow> price_presence_check_fails preq) \<and>
   status (CardController_handleRequest cs creq) \<noteq> 400 \<and>
   status (CollectionController_handleRequest ls lreq) \<noteq> 400 \<and>
   (PriceController_try ps now preq = Inl e \<longrightarrow>
      PriceController_handleRequest ps now preq = respond_error 500 (error_message e)) \<and>
   (CardController_try cs creq = Inl e \<longrightarrow>
      CardController_handleRequest cs creq =
        respond_error (if message_of e = ''Card not found'' then 404 else 500) (error_message e)) \<and>
   (req_method preq = ''GET'' \<and> ''top-gainers'' \<notin> set (segments preq) \<and>
    ''history'' \<in> set (segments preq) \<and> truthy (param preq ''card_id'') \<and>
    truthy (param preq ''condition'') \<and>
    parseInt (or_else (param preq ''days'') ''30'') = Num d \<and> 365 < d \<longrightarrow>
      PriceController_handleRequest ps now preq =
        respond_error 500 ''Cannot fetch price history for more than 365 days'') \<and>
   (req_method preq = ''GET'' \<and> ''top-gainers'' \<notin> set (segments preq) \<and>
    ''history'' \<in> set (segments preq) \<and> truthy (param preq ''card_id'') \<and>
    param preq ''condition'' = Some c \<and> c \<noteq> [] \<and> c \<notin> set validConditions \<and>
    parseInt (or_else (param preq ''days'') ''30'') = Num d \<and> d \<le> 365 \<longrightarrow>
      PriceController_handleRequest ps now preq = respond_error 500 ''Invalid card condition'') \<and>
   (req_method preq = ''GET'' \<and> ''top-gainers'' \<in> set (segments preq) \<and>
    (truthy (param preq ''game'') \<longrightarrow> the (param preq ''game'') \<in> set validGames) \<and>
    parseInt (or_else (param preq ''limit'') ''10'') = Num n \<and> 50 < n \<longrightarrow>
      PriceController_handleRequest ps now preq = respond_error 500 ''Limit cannot exceed 50'') \<and>
   (req_method preq = ''GET'' \<and> ''top-gainers'' \<in> set (segments preq) \<and>
    param preq ''game'' = Some g \<and> g \<noteq> [] \<and> g \<notin> set validGames \<longrightarrow>
      PriceController_handleRequest ps now preq = respond_error 500 ''Invalid game type'') \<and>
   (req_method preq = ''POST'' \<and> req_json preq = Some pb \<and> truthy (j_card_id pb) \<and>
    truthy (j_condition pb) \<and> j_price pb = Some p \<and> p \<le> 0 \<longrightarrow>
      PriceController_handleRequest ps now preq = respond_error 500 ''Price must be greater than 0'') \<and>
   (req_method lreq = ''POST'' \<and> req_json lreq = Some lb \<and> truthy (req_authorization lreq) \<and>
    auth_getUser ls (the (req_authorization lreq)) = Some u \<and> u \<noteq> [] \<and>
    truthy (cl_card_id lb) \<and> cl_quantity lb = Some q \<and> q \<le> 0 \<longrightarrow>
      CollectionController_handleRequest ls lreq =
        respond_error 500 ''Quantity must be greater than 0'') \<and>
   (req_method creq = ''POST'' \<and> req_json creq = Some cb \<and> truthy (cj_name cb) \<and>
    trim (the (cj_name cb)) \<noteq> [] \<and> (\<forall>g'. cj_game cb = Some g' \<longrightarrow> g' \<notin> set validGames) \<longrightarrow>
      CardController_handleRequest cs creq = respond_error 500 ''Invalid game type'') \<and>
   (truthy (req_authorization lreq) \<and> auth_getUser ls (the (req_authorization lreq)) = Some u \<and>
    CollectionController_try ls u lreq = Inl e \<longrightarrow>
      CollectionController_handleRequest ls lreq = respond_error 500 (error_message e))"
proof -
  have 1: "status (PriceController_handleRequest ps now preq) = 400 \<longleftrightarrow> price_presence_check_fails preq"
    by (rule price_status_400_iff)
  have 2: "status (CardController_handleRequest cs creq) \<noteq> 400"
    using card_status[of cs creq] by auto
  have 3: "status (CollectionController_handleRequest ls lreq) \<noteq> 400"
    using collection_status[of ls lreq] by auto
  have 4: "PriceController_try ps now preq = Inl e \<longrightarrow>
      PriceController_handleRequest ps now preq = respond_error 500 (error_message e)"
    by (simp add: PriceController_handleRequest_def)
  have 5: "CardController_try cs creq = Inl e \<longrightarrow>
      CardController_handleRequest cs creq =
        respond_error (if message_of e = ''Card not found'' then 404 else 500) (error_message e)"
    by (simp add: CardController_handleRequest_def)
  have 6: "req_method preq = ''GET'' \<and> ''top-gainers'' \<notin> set (segments preq) \<and>
    ''history'' \<in> set (segments preq) \<and> truthy (param preq ''card_id'') \<and>
    truthy (param preq ''condition'') \<and>
    parseInt (or_else (param preq ''days'') ''30'') = Num d \<and> 365 < d \<longrightarrow>
      PriceController_handleRequest ps now preq =
        respond_error 500 ''Cannot fetch price history for more than 365 days''"
    using history_days_500[of preq d ps now] by blast
  have 7: "req_method preq = ''GET'' \<and> ''top-gainers'' \<notin> set (segments preq) \<and>
    ''history'' \<in> set (segments preq) \<and> truthy (param preq ''card_id'') \<and>
    param preq ''condition'' = Some c \<and> c \<noteq> [] \<and> c \<notin> set validConditions \<and>
    parseInt (or_else (param preq ''days'') ''30'') = Num d \<and> d \<le> 365 \<longrightarrow>
      PriceController_handleRequest ps now preq = respond_error 500 ''Invalid card condition''"
    using history_condition_500[of preq c d ps now] by blast
  have 8: "req_method preq = ''GET'' \<and> ''top-gainers'' \<in> set (segments preq) \<and>
    (truthy (param preq ''game'') \<longrightarrow> the (param preq ''game'') \<in> set validGames) \<and>
    parseInt (or_else (param preq ''limit'') ''10'') = Num n \<and> 50 < n \<longrightarrow>
      PriceController_handleRequest ps now preq = respond_error 500 ''Limit cannot exceed 50''"
    using top_gainers_limit_500[of preq n ps now] by blast
  have 9: "req_method preq = ''GET'' \<and> ''top-gainers'' \<in> set (segments preq) \<and>
    param preq ''game'' = Some g \<and> g \<noteq> [] \<and> g \<notin> set validGames \<longrightarrow>
      PriceController_handleRequest ps now preq = respond_error 500 ''Invalid game type''"
    using top_gainers_game_500[of preq g ps now] by blast
  have 10: "req_method preq = ''POST'' \<and> req_json preq = Some pb \<and> truthy (j_card_id pb) \<and>
    truthy (j_condition pb) \<and> j_price pb = Some p \<and> p \<le> 0 \<longrightarrow>
      PriceController_handleRequest ps now preq = respond_error 500 ''Price must be greater than 0''"
    using add_price_500[of preq pb p ps now] by blast
  have 11: "req_method lreq = ''POST'' \<and> req_json lreq = Some lb \<and> truthy (req_authorization lreq) \<and>
    auth_getUser ls (the (req_authorization lreq)) = Some u \<and> u \<noteq> [] \<and>
    truthy (cl_card_id lb) \<and> cl_quantity lb = Some q \<and> q \<le> 0 \<longrightarrow>
      CollectionController_handleRequest ls lreq =
        respond_error 500 ''Quantity must be greater than 0''"
    using add_quantity_500[of lreq lb ls u q] by blast
  have 12: "req_method creq = ''POST'' \<and> req_json creq = Some cb \<and> truthy (cj_name cb) \<and>
    trim (the (cj_name cb)) \<noteq> [] \<and> (\<forall>g'. cj_game cb = Some g' \<longrightarrow> g' \<notin> set validGames) \<longrightarrow>
      CardController_handleRequest cs creq = respond_error 500 ''Invalid game type''"
    using create_card_game_500[of creq cb cs] by blast
  have 13: "truthy (req_authorization lreq) \<and> auth_getUser ls (the (req_authorization lreq)) = Some u \<and>
    CollectionController_try ls u lreq = Inl e \<longrightarrow>
      CollectionController_handleRequest ls lreq = respond_error 500 (error_message e)"
    by (simp add: CollectionController_handleRequest_def)
  show ?thesis
    by (intro conjI) (rule 1 2 3 4 5 6 7 8 9 10 11 12 13)+
qed

text \<open>The theorem at a history request for 366 days, at a request adding a quantity of
  0 and at a request creating a card of the game \<^verbatim>\<open>chess\<close>.\<close>

theorem validation_failure_status_witness:
  "PriceController_handleRequest (read_only_store gain_db) ex_now days_366_request =
     respond_error 500 ''Cannot fetch price history for more than 365 days'' \<and>
   \<not> price_presence_check_fails days_366_request \<and>
   status (PriceController_handleRequest (read_only_store gain_db) ex_now days_366_request) \<noteq> 400 \<and>
   CollectionController_handleRequest empty_collection_store zero_quantity_request =
     respond_error 500 ''Quantity must be greater than 0'' \<and>
   CardController_handleRequest empty_card_store chess_card_request =
     respond_error 500 ''Invalid game type''"
proof -
  have a: "req_method days_366_request = ''GET'' \<and> ''top-gainers'' \<notin> set (segments days_366_request) \<and>
    ''history'' \<in> set (segments days_366_request) \<and> truthy (param days_366_request ''card_id'') \<and>
    truthy (param days_366_request ''condition'') \<and>
    parseInt (or_else (param days_366_request ''days'') ''30'') = Num 366 \<and> (365::int) < 366"
    by (simp add: req_defs Let_def)
  have b: "req_method zero_quantity_request = ''POST'' \<and>
    req_json zero_quantity_request = Some \<lparr>cl_card_id = Some ''card-a'', cl_condition = Some ''mint'',
        cl_quantity = Some 0, cl_purchase_price = None, cl_notes = None\<rparr> \<and>
    truthy (req_authorization zero_quantity_request) \<and>
    auth_getUser empty_collection_store (the (req_authorization zero_quantity_request)) = Some ''u1'' \<and>
    ''u1'' \<noteq> [] \<and>
    truthy (cl_card_id \<lparr>cl_card_id = Some ''card-a'', cl_condition = Some ''mint'',
        cl_quantity = Some 0, cl_purchase_price = None, cl_notes = None\<rparr>) \<and>
    cl_quantity \<lparr>cl_card_id = Some ''card-a'', cl_condition = Some ''mint'',
        cl_quantity = Some 0, cl_purchase_price = None, cl_notes = None\<rparr> = Some 0 \<and> (0::rat) \<le> 0"
    by (simp add: req_defs empty_collection_store_def collectionClient.extend_def
        collectionStore.fields_def stats_client_def)
  have c: "req_method chess_card_request = ''POST'' \<and>
    req_json chess_card_request = Some \<lparr>cj_name = Some ''Knight'', cj_game = Some ''chess'',
        cj_set_name = None, cj_rarity = None, cj_card_number = None, cj_image_url = None,
        cj_description = None\<rparr> \<and>
    truthy (cj_name \<lparr>cj_name = Some ''Knight'', cj_game = Some ''chess'',
        cj_set_name = None, cj_rarity = None, cj_card_number = None, cj_image_url = None,
        cj_description = None\<rparr>) \<and>
    trim (the (cj_name \<lparr>cj_name = Some ''Knight'', cj_game = Some ''chess'',
        cj_set_name = None, cj_rarity = None, cj_card_number = None, cj_image_url = None,
        cj_description = None\<rparr>)) \<noteq> [] \<and>
    (\<forall>g'. cj_game \<lparr>cj_name = Some ''Knight'', cj_game = Some ''chess'',
        cj_set_name = None, cj_rarity = None, cj_card_number = None, cj_image_url = None,
        cj_description = None\<rparr> = Some g' \<longrightarrow> g' \<notin> set validGames)"
    by (simp add: req_defs trim_def validGames_def)
  note T = validation_failure_status[where ps = "read_only_store gain_db" and now = ex_now
        and preq = days_366_request and d = 366
        and ls = empty_collection_store and lreq = zero_quantity_request
        and lb = "\<lparr>cl_card_id = Some ''card-a'', cl_condition = Some ''mint'',
                    cl_quantity = Some 0, cl_purchase_price = None, cl_notes = None\<rparr>"
        and u = "''u1''" and q = 0
        and cs = empty_card_store and creq = chess_card_request
        and cb = "\<lparr>cj_name = Some ''Knight'', cj_game = Some ''chess'',
                    cj_set_name = None, cj_rarity = None, cj_card_number = None,
                    cj_image_url = None, cj_description = None\<rparr>"]
  have r1: "PriceController_handleRequest (read_only_store gain_db) ex_now days_366_request =
     respond_error 500 ''Cannot fetch price history for more than 365 days''"
    by (rule mp[OF T[THEN conjunct2, THEN conjunct2, THEN conjunct2, THEN conjunct2,
                     THEN conjunct2, THEN conjunct1] a])
  have r2: "CollectionController_handleRequest empty_collection_store zero_quantity_request =
     respond_error 500 ''Quantity must be greater than 0''"
    by (rule mp[OF T[THEN conjunct2, THEN conjunct2, THEN conjunct2, THEN conjunct2,
                     THEN conjunct2, THEN conjunct2, THEN conjunct2, THEN conjunct2,
                     THEN conjunct2, THEN conjunct2, THEN conjunct1] b])
  have r3: "CardController_handleRequest empty_card_store chess_card_request =
     respond_error 500 ''Invalid game type''"
    by (rule mp[OF T[THEN conjunct2, THEN conjunct2, THEN conjunct2, THEN conjunct2,
                     THEN conjunct2, THEN conjunct2, THEN conjunct2, THEN conjunct2,
                     THEN conjunct2, THEN conjunct2, THEN conjunct2, THEN conjunct1] c])
  have s: "status (PriceController_handleRequest (read_only_store gain_db) ex_now days_366_request) \<noteq> 400"
    using r1 by (simp add: respond_error_def)
  have n: "\<not> price_presence_check_fails days_366_request"
    using T[THEN conjunct1] s by simp
  show ?thesis using r1 r2 r3 s n by simp
qed

text \<open>
  Claim C3 as stated (a request that fails input validation receives status 400) fails
  for the history request with \<^verbatim>\<open>days=366\<close>: the service throws and the handler
  answers 500.
\<close>

theorem validation_failure_400_counterexample:
  "PriceController_handleRequest (read_only_store gain_db) ex_now days_366_request =
     \<lparr>status = 500, payload = ErrorObject ''Cannot fetch price history for more than 365 days''\<rparr> \<and>
   parseInt ''366'' = Num 366"
  by (simp add: PriceController_handleRequest_def PriceController_try_def
      PriceService_getPriceHistory_def or_default_def respond_error_def error_message_def
      req_defs Let_def)

end
